theory Spec2Isabelle
  imports Main
begin

section \<open>Python values\<close>

text \<open>
  The program is a script (\<^verbatim>\<open>cha16-06_REST_APIs_Tutorial.py\<close>, lines 247 to 562) that
  talks to a JSON REST service through the \<^verbatim>\<open>requests\<close> and \<^verbatim>\<open>json\<close> libraries.
  The values it handles are the ones \<^verbatim>\<open>json.loads\<close> produces and the dictionary
  literals it sends. A \<^verbatim>\<open>dict\<close> is an association list with distinct keys, in insertion
  order, read with \<open>map_of\<close>. Python's \<^verbatim>\<open>float\<close> is left out: no number of the script
  is one, and floating point has no counterpart here.
\<close>

datatype py_value =
    PyNone
  | PyBool bool
  | PyInt int
  | PyStr string
  | PyList "py_value list"
  | PyDict "(string \<times> py_value) list"

text \<open>
  The exceptions the script can die of. It has no \<^verbatim>\<open>try\<close> statement, so a raised
  exception ends the run. \<open>RequestException\<close> stands for every exception of a
  \<^verbatim>\<open>requests.get/post/put/patch/delete\<close> call (connection refused, timeout, ...);
  \<open>JSONDecodeError\<close> is \<^verbatim>\<open>json.JSONDecodeError\<close>; \<open>RequestsJSONDecodeError\<close> is the one
  \<^verbatim>\<open>Response.json()\<close> raises.
\<close>

datatype exn =
    RequestException
  | JSONDecodeError
  | RequestsJSONDecodeError
  | KeyError string
  | TypeError

text \<open>\<^verbatim>\<open>v[k]\<close> for a string key \<open>k\<close>: only a \<^verbatim>\<open>dict\<close> accepts it.\<close>

fun subscript :: "py_value \<Rightarrow> string \<Rightarrow> exn + py_value" where
  "subscript (PyDict d) k = (case map_of d k of None \<Rightarrow> Inl (KeyError k) | Some v \<Rightarrow> Inr v)"
| "subscript _ k = Inl TypeError"

text \<open>
  \<^verbatim>\<open>a == b\<close>. A \<^verbatim>\<open>bool\<close> is an \<^verbatim>\<open>int\<close> in Python (\<^verbatim>\<open>True == 1\<close>); lists compare
  element by element; dictionaries compare as mappings, whatever the order of the keys.
\<close>

fun py_eq :: "py_value \<Rightarrow> py_value \<Rightarrow> bool" where
  "py_eq PyNone PyNone = True"
| "py_eq (PyBool a) (PyBool b) = (a = b)"
| "py_eq (PyBool a) (PyInt j) = ((if a then 1 else 0) = j)"
| "py_eq (PyInt i) (PyBool b) = (i = (if b then 1 else 0))"
| "py_eq (PyInt i) (PyInt j) = (i = j)"
| "py_eq (PyStr s) (PyStr t) = (s = t)"
| "py_eq (PyList xs) (PyList ys) = list_all2 py_eq xs ys"
| "py_eq (PyDict d) (PyDict e) =
     (length (remdups (map fst d)) = length (remdups (map fst e)) \<and>
      (\<forall>(k, v) \<in> set d. map_of d k = Some v \<longrightarrow>
         (case map_of e k of None \<Rightarrow> False | Some w \<Rightarrow> py_eq v w)))"
| "py_eq _ _ = False"

text \<open>\<^verbatim>\<open>"literal" + v\<close>: string concatenation, a \<^verbatim>\<open>TypeError\<close> unless \<open>v\<close> is a \<^verbatim>\<open>str\<close>.\<close>

fun str_add :: "string \<Rightarrow> py_value \<Rightarrow> exn + string" where
  "str_add s (PyStr t) = Inr (s @ t)"
| "str_add s _ = Inl TypeError"

text \<open>The name \<^verbatim>\<open>print(type(v))\<close> shows, as in \<^verbatim>\<open><class 'dict'>\<close>.\<close>

fun type_name :: "py_value \<Rightarrow> string" where
  "type_name PyNone = ''NoneType''"
| "type_name (PyBool _) = ''bool''"
| "type_name (PyInt _) = ''int''"
| "type_name (PyStr _) = ''str''"
| "type_name (PyList _) = ''list''"
| "type_name (PyDict _) = ''dict''"

section \<open>Requests, responses and the libraries\<close>

datatype http_method = GET | POST | PUT | PATCH | DELETE

text \<open>
  What the script hands to \<^verbatim>\<open>requests\<close>: the method (\<open>verb\<close>), the URL and the keyword arguments
  \<^verbatim>\<open>json=\<close>, \<^verbatim>\<open>data=\<close> and \<^verbatim>\<open>headers=\<close> (absent ones are \<open>None\<close> or empty).
\<close>

record request =
  verb :: http_method
  url :: string
  json :: "py_value option"
  data :: "string option"
  headers :: "(string \<times> string) list"

text \<open>
  The attributes of a \<^verbatim>\<open>Response\<close> object the script reads; \<open>body_text\<close> is its
  \<^verbatim>\<open>.text\<close>, the body as a string.
\<close>

record response =
  status_code :: int
  reason :: string
  body_text :: string

text \<open>
  The libraries are not part of the program; they are parameters of the model.
  \<open>send\<close> is the exchange \<^verbatim>\<open>requests\<close> performs against the remote service, whose state
  is \<open>'w\<close>: it answers with a response or fails (\<open>None\<close>, an exception of
  \<^verbatim>\<open>requests\<close>). \<open>loads\<close> is \<^verbatim>\<open>json.loads\<close> (\<open>None\<close>: it raises
  \<^verbatim>\<open>JSONDecodeError\<close>), \<open>dumps\<close> is \<^verbatim>\<open>json.dumps\<close> and \<open>json_method\<close> is
  \<^verbatim>\<open>Response.json()\<close>.
\<close>

record 'w lib =
  send :: "request \<Rightarrow> 'w \<Rightarrow> response option \<times> 'w"
  loads :: "string \<Rightarrow> py_value option"
  dumps :: "py_value \<Rightarrow> string"
  json_method :: "response \<Rightarrow> py_value option"

section \<open>Running the script\<close>

text \<open>
  A line of output is the sequence of pieces \<^verbatim>\<open>print\<close> was given: literal text of an
  f-string, and the values interpolated into it (Python formats them with \<^verbatim>\<open>str\<close>).
\<close>

datatype piece = Lit string | Val py_value

type_synonym line = "piece list"

text \<open>
  The state of a run: the remote service, the requests made so far and the lines printed
  so far. A statement either finishes with a value or raises.
\<close>

record 'w run =
  world :: 'w
  sent :: "request list"
  printed :: "line list"

type_synonym ('w, 'a) prog = "'w run \<Rightarrow> (exn + 'a) \<times> 'w run"

definition return :: "'a \<Rightarrow> ('w, 'a) prog" where
  "return x s = (Inr x, s)"

definition raise :: "exn \<Rightarrow> ('w, 'a) prog" where
  "raise e s = (Inl e, s)"

definition lift :: "exn + 'a \<Rightarrow> ('w, 'a) prog" where
  "lift r s = (r, s)"

text \<open>Sequencing: an exception of the first statement skips the rest.\<close>

definition then_do :: "('w, 'a) prog \<Rightarrow> ('a \<Rightarrow> ('w, 'b) prog) \<Rightarrow> ('w, 'b) prog" where
  "then_do m f s = (case m s of (Inl e, s') \<Rightarrow> (Inl e, s') | (Inr x, s') \<Rightarrow> f x s')"

definition py_print :: "line \<Rightarrow> ('w, unit) prog" where
  "py_print ln s = (Inr (), s\<lparr>printed := printed s @ [ln]\<rparr>)"

definition request :: "'w lib \<Rightarrow> request \<Rightarrow> ('w, response) prog" where
  "request L rq s =
     (case send L rq (world s) of
        (None, w') \<Rightarrow> (Inl RequestException, s\<lparr>world := w', sent := sent s @ [rq]\<rparr>)
      | (Some r, w') \<Rightarrow> (Inr r, s\<lparr>world := w', sent := sent s @ [rq]\<rparr>))"

definition json_loads :: "'w lib \<Rightarrow> string \<Rightarrow> ('w, py_value) prog" where
  "json_loads L body = (case loads L body of None \<Rightarrow> raise JSONDecodeError | Some v \<Rightarrow> return v)"

definition response_json :: "'w lib \<Rightarrow> response \<Rightarrow> ('w, py_value) prog" where
  "response_json L r =
     (case json_method L r of None \<Rightarrow> raise RequestsJSONDecodeError | Some v \<Rightarrow> return v)"

definition requests_get :: "'w lib \<Rightarrow> string \<Rightarrow> ('w, response) prog" where
  "requests_get L api_url =
     request L \<lparr>verb = GET, url = api_url, json = None, data = None, headers = []\<rparr>"

definition requests_post :: "'w lib \<Rightarrow> string \<Rightarrow> py_value \<Rightarrow> ('w, response) prog" where
  "requests_post L api_url todo =
     request L \<lparr>verb = POST, url = api_url, json = Some todo, data = None, headers = []\<rparr>"

definition requests_post_data ::
  "'w lib \<Rightarrow> string \<Rightarrow> string \<Rightarrow> (string \<times> string) list \<Rightarrow> ('w, response) prog" where
  "requests_post_data L api_url body hdrs =
     request L \<lparr>verb = POST, url = api_url, json = None, data = Some body, headers = hdrs\<rparr>"

definition requests_put :: "'w lib \<Rightarrow> string \<Rightarrow> py_value \<Rightarrow> ('w, response) prog" where
  "requests_put L api_url todo =
     request L \<lparr>verb = PUT, url = api_url, json = Some todo, data = None, headers = []\<rparr>"

definition requests_patch :: "'w lib \<Rightarrow> string \<Rightarrow> py_value \<Rightarrow> ('w, response) prog" where
  "requests_patch L api_url todo =
     request L \<lparr>verb = PATCH, url = api_url, json = Some todo, data = None, headers = []\<rparr>"

definition requests_delete :: "'w lib \<Rightarrow> string \<Rightarrow> ('w, response) prog" where
  "requests_delete L api_url =
     request L \<lparr>verb = DELETE, url = api_url, json = None, data = None, headers = []\<rparr>"

section \<open>The report lines\<close>

text \<open>
  Every section of the script ends in the same two f-strings, with the name of the exchange
  spelled out in each and the status code and reason phrase of a response interpolated:
  \<^verbatim>\<open>f"\n Successful GET /todos/1, status:  {r.status_code} reason: {r.reason}"\<close> and
  \<^verbatim>\<open>f"Unsuccessful GET /todos/1 status: {r.status_code}  reason: {r.reason}"\<close>.
\<close>

definition successful :: "string \<Rightarrow> response \<Rightarrow> line" where
  "successful what r =
     [Lit (CHR 0x0A # '' Successful '' @ what @ '', status:  ''), Val (PyInt (status_code r)),
      Lit '' reason: '', Val (PyStr (reason r))]"

definition unsuccessful :: "string \<Rightarrow> response \<Rightarrow> line" where
  "unsuccessful what r =
     [Lit (''Unsuccessful '' @ what @ '' status: ''), Val (PyInt (status_code r)),
      Lit ''  reason: '', Val (PyStr (reason r))]"

section \<open>GET (lines 250 to 336)\<close>

text \<open>Lines 275 to 305: the \<^verbatim>\<open>if\<close> statement on \<^verbatim>\<open>response_get\<close>.\<close>

definition get_report :: "'w lib \<Rightarrow> response \<Rightarrow> ('w, py_value option) prog" where
  "get_report L response_get =
     (if status_code response_get = 200 \<and> reason response_get = ''OK'' then
        then_do (json_loads L (body_text response_get)) (\<lambda>resp_py.
        then_do (py_print (successful ''GET /todos/1'' response_get)) (\<lambda>_.
        then_do (lift (subscript resp_py ''userId'')) (\<lambda>resp_userId.
        then_do (lift (subscript resp_py ''title'')) (\<lambda>resp_title.
        then_do (lift (subscript resp_py ''completed'')) (\<lambda>resp_completed.
        then_do (py_print [Lit (CHR 0x0A # ''resp_userId: ''), Val resp_userId]) (\<lambda>_.
        then_do (py_print [Lit ''resp_title: '', Val resp_title]) (\<lambda>_.
        then_do (py_print [Lit ''resp_completed: '', Val resp_completed]) (\<lambda>_.
        then_do (response_json L response_get) (\<lambda>j1.
        then_do (lift (subscript j1 ''userId'')) (\<lambda>from_json_userId.
        then_do (response_json L response_get) (\<lambda>j2.
        then_do (lift (subscript j2 ''title'')) (\<lambda>j2_title.
        then_do (lift (str_add ''** -- '' j2_title)) (\<lambda>starred.
        then_do (return (starred @ '' -- **'')) (\<lambda>from_json_title.
        then_do (response_json L response_get) (\<lambda>j3.
        then_do (lift (subscript j3 ''completed'')) (\<lambda>from_json_completed.
        then_do (py_print
          [Lit (CHR 0x0A # '' *** Data directly from response_get.json(): '' @ [CHR 0x0A]
                @ ''userId: ''),
           Val from_json_userId,
           Lit ('' '' @ [CHR 0x0A] @ ''title: ''), Val (PyStr from_json_title),
           Lit ('' '' @ [CHR 0x0A] @ ''completed? ''), Val from_json_completed,
           Lit ('' '' @ [CHR 0x0A])]) (\<lambda>_.
        return (Some resp_py))))))))))))))))))
      else
        then_do (py_print (unsuccessful ''GET /todos/1'' response_get)) (\<lambda>_.
        return None))"

text \<open>
  Lines 250 to 305. The section leaves \<^verbatim>\<open>response_get\<close> bound, and \<^verbatim>\<open>resp_py\<close> when the
  first branch ran.
\<close>

definition get_method :: "'w lib \<Rightarrow> string \<Rightarrow> ('w, response \<times> py_value option) prog" where
  "get_method L api_url =
     then_do (requests_get L api_url) (\<lambda>response_get.
     then_do (get_report L response_get) (\<lambda>resp_py.
     return (response_get, resp_py)))"

text \<open>Lines 322 to 336: the body of \<^verbatim>\<open>response_get\<close> is decoded again, whatever its status.\<close>

definition deserialize :: "'w lib \<Rightarrow> response \<Rightarrow> ('w, py_value) prog" where
  "deserialize L response_get =
     then_do (json_loads L (body_text response_get)) (\<lambda>resp_py.
     then_do (py_print [Lit (''<class '' @ [CHR 0x27] @ type_name resp_py @ [CHR 0x27] @ ''>'')])
       (\<lambda>_.
     then_do (py_print
       [Lit (CHR 0x0A # CHR 0x0A # ''response_py in Python DataType --> ''), Val resp_py]) (\<lambda>_.
     then_do (lift (subscript resp_py ''userId'')) (\<lambda>user_id.
     then_do (lift (subscript resp_py ''title'')) (\<lambda>title.
     then_do (lift (subscript resp_py ''completed'')) (\<lambda>completed.
     then_do (py_print
       [Lit (CHR 0x0A # ''- Task '' @ [CHR 0x27]), Val title,
        Lit (CHR 0x27 # '' executed by user ''), Val user_id,
        Lit '' is completed? '', Val completed]) (\<lambda>_.
     return resp_py)))))))"

section \<open>POST (lines 353 to 411)\<close>

text \<open>Lines 367 to 386: the \<^verbatim>\<open>if\<close> statement on \<^verbatim>\<open>response_post\<close>.\<close>

definition post_report ::
  "'w lib \<Rightarrow> py_value \<Rightarrow> py_value \<Rightarrow> py_value \<Rightarrow> response \<Rightarrow> ('w, py_value option) prog" where
  "post_report L req_userId req_title req_completed response_post =
     (if status_code response_post = 201 \<and> reason response_post = ''Created'' then
        then_do (json_loads L (body_text response_post)) (\<lambda>resp_py.
        then_do (py_print (successful ''POST /todos'' response_post)) (\<lambda>_.
        then_do (lift (subscript resp_py ''userId'')) (\<lambda>resp_userId.
        then_do (lift (subscript resp_py ''title'')) (\<lambda>resp_title.
        then_do (lift (subscript resp_py ''completed'')) (\<lambda>resp_completed.
        then_do (py_print [Lit (CHR 0x0A # ''req_userId == resp_userId? ''),
                           Val (PyBool (py_eq req_userId resp_userId))]) (\<lambda>_.
        then_do (py_print [Lit ''req_title == resp_title? '',
                           Val (PyBool (py_eq req_title resp_title))]) (\<lambda>_.
        then_do (py_print [Lit ''req_completed == resp_completed? '',
                           Val (PyBool (py_eq req_completed resp_completed))]) (\<lambda>_.
        return (Some resp_py)))))))))
      else
        then_do (py_print (unsuccessful ''POST /todos'' response_post)) (\<lambda>_.
        return None))"

text \<open>
  Lines 356 to 386, as a function of the values of \<^verbatim>\<open>api_url\<close> and \<^verbatim>\<open>todo\<close> (the script
  binds them to literals, see \<open>script\<close> below).
\<close>

definition post_method ::
  "'w lib \<Rightarrow> string \<Rightarrow> (string \<times> py_value) list \<Rightarrow> ('w, response \<times> py_value option) prog" where
  "post_method L api_url todo =
     then_do (lift (subscript (PyDict todo) ''userId'')) (\<lambda>req_userId.
     then_do (lift (subscript (PyDict todo) ''title'')) (\<lambda>req_title.
     then_do (lift (subscript (PyDict todo) ''completed'')) (\<lambda>req_completed.
     then_do (requests_post L api_url (PyDict todo)) (\<lambda>response_post.
     then_do (post_report L req_userId req_title req_completed response_post) (\<lambda>resp_py.
     return (response_post, resp_py))))))"

text \<open>
  Lines 402 to 411: the same request with the body serialised by hand and the header set
  by hand; only the status code is printed.
\<close>

definition post_data_method ::
  "'w lib \<Rightarrow> string \<Rightarrow> (string \<times> py_value) list \<Rightarrow> (string \<times> string) list \<Rightarrow> ('w, response) prog"
  where
  "post_data_method L api_url todo hdrs =
     then_do (requests_post_data L api_url (dumps L (PyDict todo)) hdrs) (\<lambda>response_post2.
     then_do (py_print [Val (PyInt (status_code response_post2))]) (\<lambda>_.
     return response_post2))"

section \<open>PUT (lines 445 to 493)\<close>

text \<open>
  Lines 474 to 493: the \<^verbatim>\<open>if\<close> statement on \<^verbatim>\<open>response_put\<close>. Its first branch
  interpolates \<^verbatim>\<open>response.status_code\<close> and \<^verbatim>\<open>response.reason\<close>, where \<^verbatim>\<open>response\<close> is
  the answer to the \<^verbatim>\<open>GET\<close> of line 450.
\<close>

definition put_report ::
  "'w lib \<Rightarrow> py_value \<Rightarrow> py_value \<Rightarrow> py_value \<Rightarrow> response \<Rightarrow> response
     \<Rightarrow> ('w, py_value option) prog" where
  "put_report L req_userId req_title req_completed response response_put =
     (if status_code response_put = 200 \<and> reason response_put = ''OK'' then
        then_do (json_loads L (body_text response_put)) (\<lambda>resp_py.
        then_do (py_print (successful ''PUT /todos'' response)) (\<lambda>_.
        then_do (lift (subscript resp_py ''userId'')) (\<lambda>resp_userId.
        then_do (lift (subscript resp_py ''title'')) (\<lambda>resp_title.
        then_do (lift (subscript resp_py ''completed'')) (\<lambda>resp_completed.
        then_do (py_print [Lit (CHR 0x0A # ''req_userId == resp_userId? ''),
                           Val (PyBool (py_eq req_userId resp_userId))]) (\<lambda>_.
        then_do (py_print [Lit ''req_title == resp_title? '',
                           Val (PyBool (py_eq req_title resp_title))]) (\<lambda>_.
        then_do (py_print [Lit ''req_completed == resp_completed? '',
                           Val (PyBool (py_eq req_completed resp_completed))]) (\<lambda>_.
        return (Some resp_py)))))))))
      else
        then_do (py_print (unsuccessful ''PUT /todos'' response_put)) (\<lambda>_.
        return None))"

text \<open>Lines 448 to 493. The section leaves \<^verbatim>\<open>response\<close> bound for the rest of the script.\<close>

definition put_method ::
  "'w lib \<Rightarrow> string \<Rightarrow> (string \<times> py_value) list
     \<Rightarrow> ('w, response \<times> response \<times> py_value option) prog" where
  "put_method L api_url todo =
     then_do (requests_get L api_url) (\<lambda>response.
     then_do (lift (subscript (PyDict todo) ''userId'')) (\<lambda>req_userId.
     then_do (lift (subscript (PyDict todo) ''title'')) (\<lambda>req_title.
     then_do (lift (subscript (PyDict todo) ''completed'')) (\<lambda>req_completed.
     then_do (requests_put L api_url (PyDict todo)) (\<lambda>response_put.
     then_do (put_report L req_userId req_title req_completed response response_put) (\<lambda>resp_py.
     return (response, response_put, resp_py)))))))"

section \<open>PATCH (lines 507 to 532)\<close>

definition patch_report :: "'w lib \<Rightarrow> py_value \<Rightarrow> response \<Rightarrow> ('w, py_value option) prog" where
  "patch_report L req_title response_patch =
     (if status_code response_patch = 200 \<and> reason response_patch = ''OK'' then
        then_do (json_loads L (body_text response_patch)) (\<lambda>resp_py.
        then_do (py_print (successful ''PATCH /todos/10'' response_patch)) (\<lambda>_.
        then_do (lift (subscript resp_py ''title'')) (\<lambda>resp_title.
        then_do (py_print [Lit ''req_title == resp_title? '',
                           Val (PyBool (py_eq req_title resp_title))]) (\<lambda>_.
        return (Some resp_py)))))
      else
        then_do (py_print (unsuccessful ''PATCH /todos/10'' response_patch)) (\<lambda>_.
        return None))"

definition patch_method ::
  "'w lib \<Rightarrow> string \<Rightarrow> (string \<times> py_value) list \<Rightarrow> ('w, response \<times> py_value option) prog" where
  "patch_method L api_url todo =
     then_do (lift (subscript (PyDict todo) ''title'')) (\<lambda>req_title.
     then_do (requests_patch L api_url (PyDict todo)) (\<lambda>response_patch.
     then_do (patch_report L req_title response_patch) (\<lambda>resp_py.
     return (response_patch, resp_py))))"

section \<open>DELETE (lines 545 to 562)\<close>

text \<open>
  Lines 552 to 562. The first branch interpolates \<^verbatim>\<open>response\<close>, still bound to the answer
  to the \<^verbatim>\<open>GET\<close> of line 450; the second branch says \<^verbatim>\<open>PATCH\<close> in its text. The body of
  \<^verbatim>\<open>response_del\<close> is never read.
\<close>

definition delete_report :: "response \<Rightarrow> response \<Rightarrow> ('w, unit) prog" where
  "delete_report response response_del =
     (if status_code response_del = 200 \<and> reason response_del = ''OK'' then
        py_print (successful ''DELETE /todos/10'' response)
      else
        py_print (unsuccessful ''PATCH /todos/10'' response_del))"

definition delete_method :: "'w lib \<Rightarrow> string \<Rightarrow> response \<Rightarrow> ('w, response) prog" where
  "delete_method L api_url response =
     then_do (requests_delete L api_url) (\<lambda>response_del.
     then_do (delete_report response response_del) (\<lambda>_.
     return response_del))"

section \<open>The script\<close>

definition todos_url :: string where
  "todos_url = ''https://jsonplaceholder.typicode.com/todos''"

definition todo_honey :: "(string \<times> py_value) list" where
  "todo_honey = [(''userId'', PyInt 1), (''title'', PyStr ''By honey''), (''completed'', PyBool False)]"

definition todo_beer :: "(string \<times> py_value) list" where
  "todo_beer = [(''userId'', PyInt 1), (''title'', PyStr ''By beer''), (''completed'', PyBool False)]"

definition todo_dance :: "(string \<times> py_value) list" where
  "todo_dance =
     [(''userId'', PyInt 1), (''title'', PyStr ''Dance at Hector party''), (''completed'', PyBool True)]"

definition todo_happy :: "(string \<times> py_value) list" where
  "todo_happy = [(''title'', PyStr ''Happy Happy'')]"

text \<open>Lines 247 to 562, in order; the variable \<^verbatim>\<open>response\<close> of line 450 reaches line 554.\<close>

definition script :: "'w lib \<Rightarrow> ('w, unit) prog" where
  "script L =
     then_do (get_method L (todos_url @ ''/1'')) (\<lambda>(response_get, _).
     then_do (deserialize L response_get) (\<lambda>_.
     then_do (post_method L todos_url todo_honey) (\<lambda>_.
     then_do (post_data_method L todos_url todo_beer [(''Content-Type'', ''application/json'')])
       (\<lambda>_.
     then_do (put_method L (todos_url @ ''/10'') todo_dance) (\<lambda>(response, _, _).
     then_do (patch_method L (todos_url @ ''/10'') todo_happy) (\<lambda>_.
     then_do (delete_method L (todos_url @ ''/10'') response) (\<lambda>_.
     return ())))))))"

section \<open>A sample service\<close>

text \<open>
  The exchanges the tutorial records in its comments (lines 259, 365, 410, 453, 464, 535
  and 565), used below to run the definitions on concrete inputs. A canned service answers
  each request from a table and never changes; \<^verbatim>\<open>json.loads\<close> and \<^verbatim>\<open>Response.json()\<close>
  are the table of the bodies involved, \<^verbatim>\<open>json.dumps\<close> its inverse.
\<close>

definition canned :: "(request \<times> response) list \<Rightarrow> (string \<times> py_value) list \<Rightarrow> unit lib" where
  "canned answers table =
     \<lparr>send = (\<lambda>rq w. (map_of answers rq, w)),
      loads = map_of table,
      dumps = (\<lambda>v. case find (\<lambda>bv. snd bv = v) table of None \<Rightarrow> ''null'' | Some bv \<Rightarrow> fst bv),
      json_method = (\<lambda>r. map_of table (body_text r))\<rparr>"

definition ok :: "string \<Rightarrow> response" where
  "ok body = \<lparr>status_code = 200, reason = ''OK'', body_text = body\<rparr>"

definition created :: "string \<Rightarrow> response" where
  "created body = \<lparr>status_code = 201, reason = ''Created'', body_text = body\<rparr>"

definition body_todo1 :: string where
  \<open>body_todo1 = ''{"userId": 1, "id": 1, "title": "delectus aut autem", "completed": false}''\<close>

definition body_honey :: string where
  \<open>body_honey = ''{"userId": 1, "title": "By honey", "completed": false, "id": 201}''\<close>

definition body_beer :: string where
  \<open>body_beer = ''{"userId": 1, "title": "By beer", "completed": false, "id": 201}''\<close>

definition body_todo10 :: string where
  \<open>body_todo10 = ''{"userId": 1, "id": 10, "title": "illo est ratione doloremque quia maiores aut", "completed": true}''\<close>

definition body_dance :: string where
  \<open>body_dance = ''{"userId": 1, "title": "Dance at Hector party", "completed": true, "id": 10}''\<close>

definition body_happy :: string where
  \<open>body_happy = ''{"userId": 1, "id": 10, "title": "Happy Happy", "completed": true}''\<close>

definition dumped_beer :: string where
  \<open>dumped_beer = ''{"userId": 1, "title": "By beer", "completed": false}''\<close>

definition body_html :: string where
  "body_html = ''<html>not json</html>''"

definition sample_table :: "(string \<times> py_value) list" where
  "sample_table =
     [(body_todo1, PyDict [(''userId'', PyInt 1), (''id'', PyInt 1),
                           (''title'', PyStr ''delectus aut autem''), (''completed'', PyBool False)]),
      (body_honey, PyDict (todo_honey @ [(''id'', PyInt 201)])),
      (body_beer, PyDict (todo_beer @ [(''id'', PyInt 201)])),
      (body_todo10, PyDict [(''userId'', PyInt 1), (''id'', PyInt 10),
                            (''title'', PyStr ''illo est ratione doloremque quia maiores aut''),
                            (''completed'', PyBool True)]),
      (body_dance, PyDict (todo_dance @ [(''id'', PyInt 10)])),
      (body_happy, PyDict [(''userId'', PyInt 1), (''id'', PyInt 10),
                           (''title'', PyStr ''Happy Happy''), (''completed'', PyBool True)]),
      (''{}'', PyDict []),
      (dumped_beer, PyDict todo_beer)]"

definition get_request :: "string \<Rightarrow> request" where
  "get_request api_url = \<lparr>verb = GET, url = api_url, json = None, data = None, headers = []\<rparr>"

definition json_request :: "http_method \<Rightarrow> string \<Rightarrow> (string \<times> py_value) list \<Rightarrow> request" where
  "json_request m api_url todo =
     \<lparr>verb = m, url = api_url, json = Some (PyDict todo), data = None, headers = []\<rparr>"

definition delete_request :: "string \<Rightarrow> request" where
  "delete_request api_url =
     \<lparr>verb = DELETE, url = api_url, json = None, data = None, headers = []\<rparr>"

definition beer_request :: request where
  "beer_request =
     \<lparr>verb = POST, url = todos_url, json = None, data = Some dumped_beer,
      headers = [(''Content-Type'', ''application/json'')]\<rparr>"

text \<open>The service as the tutorial met it.\<close>

definition tutorial_answers :: "(request \<times> response) list" where
  "tutorial_answers =
     [(get_request (todos_url @ ''/1''), ok body_todo1),
      (json_request POST todos_url todo_honey, created body_honey),
      (beer_request, created body_beer),
      (get_request (todos_url @ ''/10''), ok body_todo10),
      (json_request PUT (todos_url @ ''/10'') todo_dance, ok body_dance),
      (json_request PATCH (todos_url @ ''/10'') todo_happy, ok body_happy),
      (delete_request (todos_url @ ''/10''), ok ''{}'')]"

definition tutorial :: "unit lib" where
  "tutorial = canned tutorial_answers sample_table"

text \<open>
  The same service on a day when the read of line 450 is refused
  (\<^verbatim>\<open>503 Service Unavailable\<close>) while the writes go through.
\<close>

definition unavailable :: response where
  "unavailable = \<lparr>status_code = 503, reason = ''Service Unavailable'', body_text = body_html\<rparr>"

definition flaky :: "unit lib" where
  "flaky = canned ((get_request (todos_url @ ''/10''), unavailable) # tutorial_answers) sample_table"

definition start :: "unit run" where
  "start = \<lparr>world = (), sent = [], printed = []\<rparr>"

text \<open>Answers the tutorial did not meet but a server may give.\<close>

definition no_content :: response where
  "no_content = \<lparr>status_code = 204, reason = ''No Content'', body_text = []\<rparr>"

definition created_shouted :: response where
  "created_shouted = \<lparr>status_code = 201, reason = ''CREATED'', body_text = body_honey\<rparr>"

definition ok_unnamed :: response where
  "ok_unnamed = \<lparr>status_code = 200, reason = [], body_text = body_todo1\<rparr>"

definition unprocessable :: "string \<Rightarrow> response" where
  "unprocessable body =
     \<lparr>status_code = 422, reason = ''Unprocessable Entity'', body_text = body\<rparr>"

definition complaint_title :: string where
  \<open>complaint_title = ''{"error": "title is required"}''\<close>

definition shouting :: "unit lib" where
  "shouting =
     canned ((json_request POST todos_url todo_honey, created_shouted) # tutorial_answers)
       sample_table"

definition unreachable :: "unit lib" where
  "unreachable = canned [] sample_table"

definition accepted :: response where
  "accepted = \<lparr>status_code = 202, reason = ''Accepted'', body_text = body_todo1\<rparr>"



section \<open>Laws of sequencing\<close>

lemmas fixture_defs = tutorial_def flaky_def canned_def tutorial_answers_def sample_table_def
  get_request_def json_request_def delete_request_def beer_request_def ok_def created_def
  unavailable_def start_def todos_url_def todo_honey_def todo_beer_def todo_dance_def todo_happy_def
  body_todo1_def body_honey_def body_beer_def body_todo10_def body_dance_def body_happy_def
  dumped_beer_def body_html_def no_content_def created_shouted_def ok_unnamed_def
  unprocessable_def complaint_title_def shouting_def unreachable_def

lemmas run_defs = script_def get_method_def get_report_def deserialize_def post_method_def
  post_report_def post_data_method_def put_method_def put_report_def patch_method_def
  patch_report_def delete_method_def delete_report_def requests_get_def requests_post_def
  requests_post_data_def requests_put_def requests_patch_def requests_delete_def request_def
  json_loads_def response_json_def then_do_def return_def raise_def lift_def py_print_def

lemma then_do_return: "then_do (return x) f = f x"
  by (rule ext) (simp add: then_do_def return_def)

lemma then_do_raise: "then_do (raise e) f = raise e"
  by (rule ext) (simp add: then_do_def raise_def)

lemma then_do_lift_Inr: "then_do (lift (Inr x)) f = f x"
  by (rule ext) (simp add: then_do_def lift_def)

lemma then_do_lift_Inl: "then_do (lift (Inl e)) f = raise e"
  by (rule ext) (simp add: then_do_def lift_def raise_def)

lemma then_do_print: "then_do (py_print ln) f s = f () (s\<lparr>printed := printed s @ [ln]\<rparr>)"
  by (simp add: then_do_def py_print_def)

lemma json_loads_None: "loads L b = None \<Longrightarrow> json_loads L b = raise JSONDecodeError"
  by (simp add: json_loads_def)

lemma json_loads_Some: "loads L b = Some v \<Longrightarrow> json_loads L b = return v"
  by (simp add: json_loads_def)

lemma request_answered:
  "send L rq (world s) = (Some r, w') \<Longrightarrow>
   then_do (request L rq) f s = f r (s\<lparr>world := w', sent := sent s @ [rq]\<rparr>)"
  by (simp add: then_do_def request_def)

lemma request_failed:
  "send L rq (world s) = (None, w') \<Longrightarrow>
   then_do (request L rq) f s = (Inl RequestException, s\<lparr>world := w', sent := sent s @ [rq]\<rparr>)"
  by (simp add: then_do_def request_def)

subsection \<open>The branches of the GET report\<close>

lemma get_report_other:
  "\<not> (status_code r = 200 \<and> reason r = ''OK'') \<Longrightarrow>
   get_report L r s = (Inr None, s\<lparr>printed := printed s @ [unsuccessful ''GET /todos/1'' r]\<rparr>)"
  by (auto simp add: get_report_def then_do_print return_def)

lemma get_report_undecodable:
  "status_code r = 200 \<Longrightarrow> reason r = ''OK'' \<Longrightarrow> loads L (body_text r) = None \<Longrightarrow>
   get_report L r s = (Inl JSONDecodeError, s)"
  by (simp add: get_report_def json_loads_None then_do_raise raise_def)

lemma get_report_decoded:
  "status_code r = 200 \<Longrightarrow> reason r = ''OK'' \<Longrightarrow> loads L (body_text r) = Some v \<Longrightarrow>
   \<exists>rest. printed (snd (get_report L r s)) = printed s @ successful ''GET /todos/1'' r # rest"
  apply (simp add: get_report_def json_loads_Some then_do_return then_do_print)
  apply (simp add: then_do_def lift_def py_print_def return_def response_json_def raise_def
      split: sum.splits option.splits prod.splits)
  done

subsection \<open>The branches of the POST report\<close>

lemma post_report_other:
  "\<not> (status_code r = 201 \<and> reason r = ''Created'') \<Longrightarrow>
   post_report L a b c r s = (Inr None, s\<lparr>printed := printed s @ [unsuccessful ''POST /todos'' r]\<rparr>)"
  by (auto simp add: post_report_def then_do_print return_def)

lemma post_report_undecodable:
  "status_code r = 201 \<Longrightarrow> reason r = ''Created'' \<Longrightarrow> loads L (body_text r) = None \<Longrightarrow>
   post_report L a b c r s = (Inl JSONDecodeError, s)"
  by (simp add: post_report_def json_loads_None then_do_raise raise_def)

lemma post_report_decoded:
  "status_code r = 201 \<Longrightarrow> reason r = ''Created'' \<Longrightarrow> loads L (body_text r) = Some v \<Longrightarrow>
   \<exists>rest. printed (snd (post_report L a b c r s)) = printed s @ successful ''POST /todos'' r # rest"
  apply (simp add: post_report_def json_loads_Some then_do_return then_do_print)
  apply (simp add: then_do_def lift_def py_print_def return_def raise_def
      split: sum.splits option.splits prod.splits)
  done

subsection \<open>The branches of the PUT report\<close>

lemma put_report_other:
  "\<not> (status_code r = 200 \<and> reason r = ''OK'') \<Longrightarrow>
   put_report L a b c r0 r s = (Inr None, s\<lparr>printed := printed s @ [unsuccessful ''PUT /todos'' r]\<rparr>)"
  by (auto simp add: put_report_def then_do_print return_def)

lemma put_report_undecodable:
  "status_code r = 200 \<Longrightarrow> reason r = ''OK'' \<Longrightarrow> loads L (body_text r) = None \<Longrightarrow>
   put_report L a b c r0 r s = (Inl JSONDecodeError, s)"
  by (simp add: put_report_def json_loads_None then_do_raise raise_def)

lemma put_report_decoded:
  "status_code r = 200 \<Longrightarrow> reason r = ''OK'' \<Longrightarrow> loads L (body_text r) = Some v \<Longrightarrow>
   \<exists>rest. printed (snd (put_report L a b c r0 r s)) = printed s @ successful ''PUT /todos'' r0 # rest"
  apply (simp add: put_report_def json_loads_Some then_do_return then_do_print)
  apply (simp add: then_do_def lift_def py_print_def return_def raise_def
      split: sum.splits option.splits prod.splits)
  done

subsection \<open>The branches of the PATCH report\<close>

lemma patch_report_other:
  "\<not> (status_code r = 200 \<and> reason r = ''OK'') \<Longrightarrow>
   patch_report L b r s = (Inr None, s\<lparr>printed := printed s @ [unsuccessful ''PATCH /todos/10'' r]\<rparr>)"
  by (auto simp add: patch_report_def then_do_print return_def)

lemma patch_report_undecodable:
  "status_code r = 200 \<Longrightarrow> reason r = ''OK'' \<Longrightarrow> loads L (body_text r) = None \<Longrightarrow>
   patch_report L b r s = (Inl JSONDecodeError, s)"
  by (simp add: patch_report_def json_loads_None then_do_raise raise_def)

lemma patch_report_decoded:
  "status_code r = 200 \<Longrightarrow> reason r = ''OK'' \<Longrightarrow> loads L (body_text r) = Some v \<Longrightarrow>
   \<exists>rest. printed (snd (patch_report L b r s)) = printed s @ successful ''PATCH /todos/10'' r # rest"
  apply (simp add: patch_report_def json_loads_Some then_do_return then_do_print)
  apply (simp add: then_do_def lift_def py_print_def return_def raise_def
      split: sum.splits option.splits prod.splits)
  done

subsection \<open>The branches of the DELETE report\<close>

lemma delete_report_other:
  "\<not> (status_code r = 200 \<and> reason r = ''OK'') \<Longrightarrow>
   delete_report r0 r s = (Inr (), s\<lparr>printed := printed s @ [unsuccessful ''PATCH /todos/10'' r]\<rparr>)"
  by (auto simp add: delete_report_def py_print_def)

lemma delete_report_ok:
  "status_code r = 200 \<Longrightarrow> reason r = ''OK'' \<Longrightarrow>
   delete_report r0 r s = (Inr (), s\<lparr>printed := printed s @ [successful ''DELETE /todos/10'' r0]\<rparr>)"
  by (simp add: delete_report_def py_print_def)

section \<open>The script on the tutorial's service\<close>

text \<open>
  Run against the service as the tutorial met it, the script makes its seven requests in
  order, ends without an exception, and prints the five \<^verbatim>\<open>Successful\<close> lines the tutorial
  quotes in its comments (lines 281, 373, 480, 523 and 557).
\<close>

lemma script_on_tutorial_service:
  "fst (script tutorial start) = Inr () \<and>
   sent (snd (script tutorial start)) =
     [get_request (todos_url @ ''/1''),
      json_request POST todos_url todo_honey,
      beer_request,
      get_request (todos_url @ ''/10''),
      json_request PUT (todos_url @ ''/10'') todo_dance,
      json_request PATCH (todos_url @ ''/10'') todo_happy,
      delete_request (todos_url @ ''/10'')] \<and>
   filter (\<lambda>ln. take 1 ln = [Lit (CHR 0x0A # '' Successful GET /todos/1, status:  '')]
               \<or> take 1 ln = [Lit (CHR 0x0A # '' Successful POST /todos, status:  '')]
               \<or> take 1 ln = [Lit (CHR 0x0A # '' Successful PUT /todos, status:  '')]
               \<or> take 1 ln = [Lit (CHR 0x0A # '' Successful PATCH /todos/10, status:  '')]
               \<or> take 1 ln = [Lit (CHR 0x0A # '' Successful DELETE /todos/10, status:  '')])
     (printed (snd (script tutorial start))) =
     [successful ''GET /todos/1'' (ok body_todo1),
      successful ''POST /todos'' (created body_honey),
      successful ''PUT /todos'' (ok body_todo10),
      successful ''PATCH /todos/10'' (ok body_happy),
      successful ''DELETE /todos/10'' (ok body_todo10)]"
  by (simp add: run_defs fixture_defs successful_def)

section \<open>C1: how a response is classified\<close>

text \<open>
  C1 as written has every status from 200 to 299 classified as a success once the body has
  decoded, and sorts the other statuses into four kinds of failure. The script knows two
  reports only and asks for one status: \<^verbatim>\<open>202 Accepted\<close>, a status of the 200 range, with
  the body of todo 1, which \<^verbatim>\<open>json.loads\<close> decodes, gets the \<^verbatim>\<open>Unsuccessful\<close> line from the
  \<^verbatim>\<open>GET\<close> section, and the body is not decoded.
\<close>

theorem get_accepted_reported_unsuccessful:
  "200 \<le> status_code accepted \<and> status_code accepted \<le> 299 \<and>
   loads tutorial (body_text accepted) =
     Some (PyDict [(''userId'', PyInt 1), (''id'', PyInt 1),
                   (''title'', PyStr ''delectus aut autem''), (''completed'', PyBool False)]) \<and>
   get_report tutorial accepted start =
     (Inr None, start\<lparr>printed := [unsuccessful ''GET /todos/1'' accepted]\<rparr>)"
  by (simp add: get_report_def then_do_print return_def accepted_def start_def tutorial_def
      canned_def sample_table_def body_todo1_def)

text \<open>
  C1, as the code has it. The script classifies five of its exchanges, one per section (the
  \<^verbatim>\<open>POST\<close> of line 407 and the \<^verbatim>\<open>GET\<close> of line 450 are left unclassified). There the
  \<^verbatim>\<open>if\<close> statement decides on the status code and the reason phrase together, for every
  integer status and every phrase, and always takes exactly one of its two branches. When
  both are the expected ones (\<^verbatim>\<open>200\<close> and \<^verbatim>\<open>OK\<close>; \<^verbatim>\<open>201\<close> and \<^verbatim>\<open>Created\<close> for
  \<^verbatim>\<open>POST\<close>) the section takes its first branch: \<^verbatim>\<open>DELETE\<close> prints the \<^verbatim>\<open>Successful\<close>
  line, the others decode the body and then print it, or stop on \<^verbatim>\<open>JSONDecodeError\<close>.
  Every other response, whatever its status (another one of 200 to 299, 300 to 399, 400 to
  499, 500 to 599 or any other integer), gets the one \<^verbatim>\<open>Unsuccessful\<close> line with its status
  code and reason phrase, and nothing else happens: there are no kinds of failure.
\<close>

theorem reports_split_on_status_and_reason:
  "(if status_code r = 200 \<and> reason r = ''OK''
    then get_report L r s = (Inl JSONDecodeError, s) \<or>
         (\<exists>rest. printed (snd (get_report L r s)) = printed s @ successful ''GET /todos/1'' r # rest)
    else get_report L r s =
           (Inr None, s\<lparr>printed := printed s @ [unsuccessful ''GET /todos/1'' r]\<rparr>)) \<and>
   (if status_code r = 201 \<and> reason r = ''Created''
    then post_report L a b c r s = (Inl JSONDecodeError, s) \<or>
         (\<exists>rest. printed (snd (post_report L a b c r s)) =
                   printed s @ successful ''POST /todos'' r # rest)
    else post_report L a b c r s =
           (Inr None, s\<lparr>printed := printed s @ [unsuccessful ''POST /todos'' r]\<rparr>)) \<and>
   (if status_code r = 200 \<and> reason r = ''OK''
    then put_report L a b c r0 r s = (Inl JSONDecodeError, s) \<or>
         (\<exists>rest. printed (snd (put_report L a b c r0 r s)) =
                   printed s @ successful ''PUT /todos'' r0 # rest)
    else put_report L a b c r0 r s =
           (Inr None, s\<lparr>printed := printed s @ [unsuccessful ''PUT /todos'' r]\<rparr>)) \<and>
   (if status_code r = 200 \<and> reason r = ''OK''
    then patch_report L b r s = (Inl JSONDecodeError, s) \<or>
         (\<exists>rest. printed (snd (patch_report L b r s)) =
                   printed s @ successful ''PATCH /todos/10'' r # rest)
    else patch_report L b r s =
           (Inr None, s\<lparr>printed := printed s @ [unsuccessful ''PATCH /todos/10'' r]\<rparr>)) \<and>
   (if status_code r = 200 \<and> reason r = ''OK''
    then delete_report r0 r s =
           (Inr (), s\<lparr>printed := printed s @ [successful ''DELETE /todos/10'' r0]\<rparr>)
    else delete_report r0 r s =
           (Inr (), s\<lparr>printed := printed s @ [unsuccessful ''PATCH /todos/10'' r]\<rparr>))"
proof -
  have get: "loads L (body_text r) = None \<or> (\<exists>v. loads L (body_text r) = Some v)"
    by (cases "loads L (body_text r)") simp_all
  show ?thesis
  proof (intro conjI)
    show "if status_code r = 200 \<and> reason r = ''OK''
      then get_report L r s = (Inl JSONDecodeError, s) \<or>
         (\<exists>rest. printed (snd (get_report L r s)) = printed s @ successful ''GET /todos/1'' r # rest)
      else get_report L r s =
           (Inr None, s\<lparr>printed := printed s @ [unsuccessful ''GET /todos/1'' r]\<rparr>)"
      using get get_report_other [of r L s] get_report_undecodable [of r L s]
        get_report_decoded [of r L _ s] by (cases "status_code r = 200 \<and> reason r = ''OK''") auto
  next
    show "if status_code r = 201 \<and> reason r = ''Created''
    then post_report L a b c r s = (Inl JSONDecodeError, s) \<or>
         (\<exists>rest. printed (snd (post_report L a b c r s)) =
                   printed s @ successful ''POST /todos'' r # rest)
    else post_report L a b c r s =
           (Inr None, s\<lparr>printed := printed s @ [unsuccessful ''POST /todos'' r]\<rparr>)"
      using get post_report_other [of r L a b c s] post_report_undecodable [of r L a b c s]
        post_report_decoded [of r L _ a b c s]
      by (cases "status_code r = 201 \<and> reason r = ''Created''") auto
  next
    show "if status_code r = 200 \<and> reason r = ''OK''
    then put_report L a b c r0 r s = (Inl JSONDecodeError, s) \<or>
         (\<exists>rest. printed (snd (put_report L a b c r0 r s)) =
                   printed s @ successful ''PUT /todos'' r0 # rest)
    else put_report L a b c r0 r s =
           (Inr None, s\<lparr>printed := printed s @ [unsuccessful ''PUT /todos'' r]\<rparr>)"
      using get put_report_other [of r L a b c r0 s] put_report_undecodable [of r L a b c r0 s]
        put_report_decoded [of r L _ a b c r0 s]
      by (cases "status_code r = 200 \<and> reason r = ''OK''") auto
  next
    show "if status_code r = 200 \<and> reason r = ''OK''
    then patch_report L b r s = (Inl JSONDecodeError, s) \<or>
         (\<exists>rest. printed (snd (patch_report L b r s)) =
                   printed s @ successful ''PATCH /todos/10'' r # rest)
    else patch_report L b r s =
           (Inr None, s\<lparr>printed := printed s @ [unsuccessful ''PATCH /todos/10'' r]\<rparr>)"
      using get patch_report_other [of r L b s] patch_report_undecodable [of r L b s]
        patch_report_decoded [of r L _ b s]
      by (cases "status_code r = 200 \<and> reason r = ''OK''") auto
  next
    show "if status_code r = 200 \<and> reason r = ''OK''
    then delete_report r0 r s =
           (Inr (), s\<lparr>printed := printed s @ [successful ''DELETE /todos/10'' r0]\<rparr>)
    else delete_report r0 r s =
           (Inr (), s\<lparr>printed := printed s @ [unsuccessful ''PATCH /todos/10'' r]\<rparr>)"
      using delete_report_other [of r r0 s] delete_report_ok [of r r0 s]
      by (cases "status_code r = 200 \<and> reason r = ''OK''") auto
  qed
qed

text \<open>
  The theorem at work: \<^verbatim>\<open>503 Service Unavailable\<close> is reported as unsuccessful by each of
  the five sections, and \<^verbatim>\<open>200 OK\<close> with the body of todo 1 starts the \<^verbatim>\<open>GET\<close> section's
  output with the \<^verbatim>\<open>Successful\<close> line.
\<close>

theorem reports_split_on_status_and_reason_witness:
  "get_report tutorial unavailable start =
     (Inr None, start\<lparr>printed := [unsuccessful ''GET /todos/1'' unavailable]\<rparr>) \<and>
   post_report tutorial (PyInt 1) (PyStr ''By honey'') (PyBool False) unavailable start =
     (Inr None, start\<lparr>printed := [unsuccessful ''POST /todos'' unavailable]\<rparr>) \<and>
   put_report tutorial (PyInt 1) (PyStr ''Dance at Hector party'') (PyBool True)
       (ok body_todo10) unavailable start =
     (Inr None, start\<lparr>printed := [unsuccessful ''PUT /todos'' unavailable]\<rparr>) \<and>
   patch_report tutorial (PyStr ''Happy Happy'') unavailable start =
     (Inr None, start\<lparr>printed := [unsuccessful ''PATCH /todos/10'' unavailable]\<rparr>) \<and>
   delete_report (ok body_todo10) unavailable start =
     (Inr (), start\<lparr>printed := [unsuccessful ''PATCH /todos/10'' unavailable]\<rparr>) \<and>
   (\<exists>rest. printed (snd (get_report tutorial (ok body_todo1) start)) =
      successful ''GET /todos/1'' (ok body_todo1) # rest)"
proof -
  have loaded: "loads tutorial (body_text (ok body_todo1)) \<noteq> None"
    by (simp add: fixture_defs)
  have not_raised: "get_report tutorial (ok body_todo1) start \<noteq> (Inl JSONDecodeError, start)"
    using loaded get_report_decoded [of "ok body_todo1" tutorial _ start]
    by (auto simp add: ok_def start_def successful_def)
  show ?thesis
    using not_raised
      reports_split_on_status_and_reason [where r = unavailable and L = tutorial and s = start
        and a = "PyInt 1" and b = "PyStr ''By honey''" and c = "PyBool False"
        and ?r0.0 = "ok body_todo10"]
      reports_split_on_status_and_reason [where r = unavailable and L = tutorial and s = start
        and a = "PyInt 1" and b = "PyStr ''Dance at Hector party''" and c = "PyBool True"
        and ?r0.0 = "ok body_todo10"]
      reports_split_on_status_and_reason [where r = unavailable and L = tutorial and s = start
        and b = "PyStr ''Happy Happy''" and ?r0.0 = "ok body_todo10"]
      reports_split_on_status_and_reason [where r = "ok body_todo1" and L = tutorial
        and s = start]
    by (simp add: unavailable_def ok_def start_def)
qed

section \<open>C2: what DELETE accepts\<close>

text \<open>
  C2 as written takes \<^verbatim>\<open>204 No Content\<close> for a successful deletion. The \<^verbatim>\<open>if\<close> statement of
  line 552 asks for \<^verbatim>\<open>200\<close> and \<^verbatim>\<open>OK\<close>, so a \<^verbatim>\<open>204\<close> goes to the \<^verbatim>\<open>else\<close> branch.
\<close>

theorem delete_no_content_reported_unsuccessful:
  "status_code no_content = 204 \<and>
   delete_report (ok body_todo10) no_content start =
     (Inr (), start\<lparr>printed := [unsuccessful ''PATCH /todos/10'' no_content]\<rparr>)"
  by (simp add: delete_report_def py_print_def no_content_def start_def)

text \<open>
  C2, as the code has it. For every \<^verbatim>\<open>DELETE\<close> the service answers, a response with status
  \<^verbatim>\<open>200\<close> and reason \<^verbatim>\<open>OK\<close> is reported as successful whatever its body, empty or not;
  every other response, \<^verbatim>\<open>204 No Content\<close> included, is reported as unsuccessful with its
  own status code and reason phrase. On both paths one line is printed and the section
  yields the response object alone: the body is never decoded, so no resource comes out of
  a deletion, and neither \<^verbatim>\<open>json.loads\<close> nor \<^verbatim>\<open>Response.json()\<close> has a say.
\<close>

theorem delete_accepts_200_OK_only:
  assumes "send L (delete_request api_url) (world s) = (Some r, w')"
  shows "delete_method L api_url response s =
           (Inr r, s\<lparr>world := w', sent := sent s @ [delete_request api_url],
                      printed := printed s @
                        [if status_code r = 200 \<and> reason r = ''OK''
                         then successful ''DELETE /todos/10'' response
                         else unsuccessful ''PATCH /todos/10'' r]\<rparr>) \<and>
         delete_method (L\<lparr>loads := f, json_method := g\<rparr>) api_url response s =
           delete_method L api_url response s"
proof -
  have rq: "send L \<lparr>verb = DELETE, url = api_url, json = None, data = None, headers = []\<rparr>
              (world s) = (Some r, w')"
    using assms by (simp add: delete_request_def)
  have first: "delete_method L api_url response s =
           (Inr r, s\<lparr>world := w', sent := sent s @ [delete_request api_url],
                      printed := printed s @
                        [if status_code r = 200 \<and> reason r = ''OK''
                         then successful ''DELETE /todos/10'' response
                         else unsuccessful ''PATCH /todos/10'' r]\<rparr>)"
    using rq
    by (simp add: delete_method_def requests_delete_def request_def then_do_def return_def
        delete_request_def delete_report_def py_print_def)
  have second: "delete_method (L\<lparr>loads := f, json_method := g\<rparr>) api_url response s =
           delete_method L api_url response s"
    by (simp add: delete_method_def requests_delete_def request_def then_do_def)
  show ?thesis using first second by simp
qed

text \<open>
  The theorem at work on the tutorial's service (\<^verbatim>\<open>200 OK\<close> with the body \<^verbatim>\<open>{}\<close>), with
  the \<^verbatim>\<open>response\<close> of line 450 at hand.
\<close>

theorem delete_accepts_200_OK_only_witness:
  "send tutorial (delete_request (todos_url @ ''/10'')) (world start) = (Some (ok ''{}''), ()) \<and>
   delete_method tutorial (todos_url @ ''/10'') (ok body_todo10) start =
     (Inr (ok ''{}''),
      \<lparr>world = (), sent = [delete_request (todos_url @ ''/10'')],
       printed = [successful ''DELETE /todos/10'' (ok body_todo10)]\<rparr>)"
proof -
  have answered: "send tutorial (delete_request (todos_url @ ''/10'')) (world start)
                    = (Some (ok ''{}''), ())"
    by (simp add: fixture_defs)
  show ?thesis
    using answered delete_accepts_200_OK_only [OF answered, of "ok body_todo10"]
    by (simp add: ok_def start_def)
qed

section \<open>C3: a body that is not JSON\<close>

text \<open>
  C3 as written has an undecodable body returned as a failure that carries the status and the
  raw body. The script calls \<^verbatim>\<open>json.loads\<close> with no \<^verbatim>\<open>try\<close> around it: on \<^verbatim>\<open>200 OK\<close> with
  an HTML body the \<^verbatim>\<open>GET\<close> section raises, and nothing is printed.
\<close>

theorem get_html_body_raises:
  "loads tutorial body_html = None \<and>
   get_report tutorial (ok body_html) start = (Inl JSONDecodeError, start)"
  by (simp add: get_report_def json_loads_def then_do_raise raise_def fixture_defs)

text \<open>
  C3, as the code has it. For every section that expects a payload (\<^verbatim>\<open>GET\<close>, \<^verbatim>\<open>POST\<close>,
  \<^verbatim>\<open>PUT\<close>, \<^verbatim>\<open>PATCH\<close>), if the response has the expected status and reason but
  \<^verbatim>\<open>json.loads\<close> cannot parse its body, \<^verbatim>\<open>json.loads\<close> raises \<^verbatim>\<open>JSONDecodeError\<close> and the
  script does not catch it: the section ends there with that exception, before any line
  is printed, and neither the status nor the body goes anywhere. The exception is not the
  one of a failed exchange: when the request itself fails, the section ends with the
  exception of \<^verbatim>\<open>requests\<close> and no body is decoded.
\<close>

theorem undecodable_body_raises:
  assumes "loads L (body_text r) = None"
  shows "(status_code r = 200 \<and> reason r = ''OK'' \<longrightarrow>
            get_report L r s = (Inl JSONDecodeError, s) \<and>
            put_report L a b c r0 r s = (Inl JSONDecodeError, s) \<and>
            patch_report L b r s = (Inl JSONDecodeError, s)) \<and>
         (status_code r = 201 \<and> reason r = ''Created'' \<longrightarrow>
            post_report L a b c r s = (Inl JSONDecodeError, s)) \<and>
         (send L (get_request api_url) (world s) = (None, w') \<longrightarrow>
            get_method L api_url s =
              (Inl RequestException, s\<lparr>world := w', sent := sent s @ [get_request api_url]\<rparr>)) \<and>
         JSONDecodeError \<noteq> RequestException"
proof -
  have transport: "get_method L api_url s =
      (Inl RequestException, s\<lparr>world := w', sent := sent s @ [get_request api_url]\<rparr>)"
    if "send L (get_request api_url) (world s) = (None, w')"
    using that
    by (simp add: get_method_def requests_get_def get_request_def request_failed)
  show ?thesis
    using assms transport
    by (simp add: get_report_undecodable put_report_undecodable patch_report_undecodable
        post_report_undecodable)
qed

text \<open>
  The theorem at work: the HTML body under \<^verbatim>\<open>200 OK\<close> and under \<^verbatim>\<open>201 Created\<close>, and a
  service that cannot be reached.
\<close>

theorem undecodable_body_raises_witness:
  "loads tutorial (body_text (ok body_html)) = None \<and>
   loads tutorial (body_text (created body_html)) = None \<and>
   get_report tutorial (ok body_html) start = (Inl JSONDecodeError, start) \<and>
   put_report tutorial (PyInt 1) (PyStr ''Dance at Hector party'') (PyBool True)
       (ok body_todo10) (ok body_html) start = (Inl JSONDecodeError, start) \<and>
   patch_report tutorial (PyStr ''Dance at Hector party'') (ok body_html) start =
     (Inl JSONDecodeError, start) \<and>
   post_report tutorial (PyInt 1) (PyStr ''Dance at Hector party'') (PyBool True)
       (created body_html) start = (Inl JSONDecodeError, start) \<and>
   get_method unreachable (todos_url @ ''/1'') start =
     (Inl RequestException, start\<lparr>sent := [get_request (todos_url @ ''/1'')]\<rparr>)"
proof -
  have html_ok: "loads tutorial (body_text (ok body_html)) = None"
    by (simp add: fixture_defs)
  have html_created: "loads tutorial (body_text (created body_html)) = None"
    by (simp add: fixture_defs)
  have html_unreachable: "loads unreachable (body_text (ok body_html)) = None"
    by (simp add: fixture_defs)
  have refused: "send unreachable (get_request (todos_url @ ''/1'')) (world start) = (None, ())"
    by (simp add: unreachable_def canned_def)
  show ?thesis
    using html_ok html_created refused
      undecodable_body_raises [OF html_ok, where s = start and a = "PyInt 1"
        and b = "PyStr ''Dance at Hector party''" and c = "PyBool True"
        and ?r0.0 = "ok body_todo10"]
      undecodable_body_raises [OF html_created, where s = start and a = "PyInt 1"
        and b = "PyStr ''Dance at Hector party''" and c = "PyBool True"]
      undecodable_body_raises [OF html_unreachable, where s = start
        and api_url = "todos_url @ ''/1''" and w' = "()"]
    by (simp add: ok_def created_def start_def)
qed

section \<open>C4: the resource a POST creates\<close>

lemma py_eq_refl: "py_eq v v"
  by (induction v) (auto simp add: list_all2_same split: option.splits)

text \<open>
  C4 as written speaks of any response with status \<^verbatim>\<open>201\<close>. The script also compares the
  reason phrase with \<^verbatim>\<open>Created\<close>, letter for letter: a server that writes \<^verbatim>\<open>201 CREATED\<close>
  and sends the new todo with its \<^verbatim>\<open>id\<close> is told that the \<^verbatim>\<open>POST\<close> was unsuccessful, and
  the body is not decoded.
\<close>

theorem post_created_shouted_reported_unsuccessful:
  "status_code created_shouted = 201 \<and>
   loads shouting (body_text created_shouted) = Some (PyDict (todo_honey @ [(''id'', PyInt 201)])) \<and>
   post_method shouting todos_url todo_honey start =
     (Inr (created_shouted, None),
      \<lparr>world = (), sent = [json_request POST todos_url todo_honey],
       printed = [unsuccessful ''POST /todos'' created_shouted]\<rparr>)"
  by (simp add: post_method_def post_report_def requests_post_def request_def then_do_def
      lift_def return_def py_print_def fixture_defs)

text \<open>
  C4, as the code has it. The payload is the dictionary bound to \<^verbatim>\<open>todo\<close>; the script reads
  its \<^verbatim>\<open>userId\<close>, \<^verbatim>\<open>title\<close> and \<^verbatim>\<open>completed\<close> before it sends it, and it has no \<^verbatim>\<open>id\<close>. If
  the service answers with status \<^verbatim>\<open>201\<close> and reason \<^verbatim>\<open>Created\<close> and a body that decodes to
  the payload with an \<^verbatim>\<open>id\<close> added, then the \<^verbatim>\<open>POST\<close> is reported as successful, the three
  comparisons of the request's fields with the response's print \<^verbatim>\<open>True\<close>, and the section
  leaves in \<^verbatim>\<open>resp_py\<close> the decoded resource: its \<^verbatim>\<open>id\<close> is the one the service gave, and
  every other field is the field of the payload.
\<close>

theorem post_created_round_trip:
  assumes userId: "map_of todo ''userId'' = Some u"
    and title: "map_of todo ''title'' = Some t"
    and completed: "map_of todo ''completed'' = Some c"
    and no_id: "map_of todo ''id'' = None"
    and answered: "send L (json_request POST api_url todo) (world s) = (Some r, w')"
    and status: "status_code r = 201"
    and phrase: "reason r = ''Created''"
    and decoded: "loads L (body_text r) = Some (PyDict d)"
    and body: "map_of d = (map_of todo)(''id'' \<mapsto> i)"
  shows "post_method L api_url todo s =
           (Inr (r, Some (PyDict d)),
            s\<lparr>world := w', sent := sent s @ [json_request POST api_url todo],
                printed := printed s @
                  [successful ''POST /todos'' r,
                   [Lit (CHR 0x0A # ''req_userId == resp_userId? ''), Val (PyBool True)],
                   [Lit ''req_title == resp_title? '', Val (PyBool True)],
                   [Lit ''req_completed == resp_completed? '', Val (PyBool True)]]\<rparr>) \<and>
         subscript (PyDict d) ''id'' = Inr i \<and>
         (\<forall>k v. k \<noteq> ''id'' \<and> map_of todo k = Some v \<longrightarrow> subscript (PyDict d) k = Inr v)"
proof -
  have rq: "send L \<lparr>verb = POST, url = api_url, json = Some (PyDict todo), data = None,
                     headers = []\<rparr> (world s) = (Some r, w')"
    using answered by (simp add: json_request_def)
  have fields: "subscript (PyDict d) ''userId'' = Inr u" "subscript (PyDict d) ''title'' = Inr t"
    "subscript (PyDict d) ''completed'' = Inr c"
    using userId title completed by (simp_all add: body)
  have report: "post_report L u t c r s' =
      (Inr (Some (PyDict d)),
       s'\<lparr>printed := printed s' @
          [successful ''POST /todos'' r,
           [Lit (CHR 0x0A # ''req_userId == resp_userId? ''), Val (PyBool True)],
           [Lit ''req_title == resp_title? '', Val (PyBool True)],
           [Lit ''req_completed == resp_completed? '', Val (PyBool True)]]\<rparr>)" for s' :: "'a run"
    by (simp add: post_report_def status phrase json_loads_Some [OF decoded] then_do_return
        then_do_print fields then_do_lift_Inr py_eq_refl return_def del: subscript.simps)
  have run: "post_method L api_url todo s =
      (Inr (r, Some (PyDict d)),
       s\<lparr>world := w', sent := sent s @ [json_request POST api_url todo],
           printed := printed s @
             [successful ''POST /todos'' r,
              [Lit (CHR 0x0A # ''req_userId == resp_userId? ''), Val (PyBool True)],
              [Lit ''req_title == resp_title? '', Val (PyBool True)],
              [Lit ''req_completed == resp_completed? '', Val (PyBool True)]]\<rparr>)"
    by (simp add: post_method_def userId title completed then_do_lift_Inr requests_post_def
        request_answered [OF rq] json_request_def)
      (simp add: then_do_def report return_def)
  have the_id: "subscript (PyDict d) ''id'' = Inr i"
    by (simp add: body)
  have others: "\<forall>k v. k \<noteq> ''id'' \<and> map_of todo k = Some v \<longrightarrow> subscript (PyDict d) k = Inr v"
    by (simp add: body)
  show ?thesis using run the_id others by simp
qed

text \<open>
  The theorem at work on the tutorial's own exchange (line 365): the todo \<^verbatim>\<open>By honey\<close> comes
  back with \<^verbatim>\<open>id\<close> 201.
\<close>

theorem post_created_round_trip_witness:
  "map_of todo_honey ''id'' = None \<and>
   send tutorial (json_request POST todos_url todo_honey) (world start) =
     (Some (created body_honey), ()) \<and>
   loads tutorial (body_text (created body_honey)) =
     Some (PyDict (todo_honey @ [(''id'', PyInt 201)])) \<and>
   post_method tutorial todos_url todo_honey start =
     (Inr (created body_honey, Some (PyDict (todo_honey @ [(''id'', PyInt 201)]))),
      \<lparr>world = (), sent = [json_request POST todos_url todo_honey],
       printed =
         [successful ''POST /todos'' (created body_honey),
          [Lit (CHR 0x0A # ''req_userId == resp_userId? ''), Val (PyBool True)],
          [Lit ''req_title == resp_title? '', Val (PyBool True)],
          [Lit ''req_completed == resp_completed? '', Val (PyBool True)]]\<rparr>) \<and>
   subscript (PyDict (todo_honey @ [(''id'', PyInt 201)])) ''id'' = Inr (PyInt 201) \<and>
   subscript (PyDict (todo_honey @ [(''id'', PyInt 201)])) ''title'' = Inr (PyStr ''By honey'')"
proof -
  have userId: "map_of todo_honey ''userId'' = Some (PyInt 1)"
    and title: "map_of todo_honey ''title'' = Some (PyStr ''By honey'')"
    and completed: "map_of todo_honey ''completed'' = Some (PyBool False)"
    and no_id: "map_of todo_honey ''id'' = None"
    by (simp_all add: todo_honey_def)
  have answered: "send tutorial (json_request POST todos_url todo_honey) (world start) =
      (Some (created body_honey), ())"
    by (simp add: fixture_defs)
  have status: "status_code (created body_honey) = 201"
    and phrase: "reason (created body_honey) = ''Created''"
    by (simp_all add: created_def)
  have decoded: "loads tutorial (body_text (created body_honey)) =
      Some (PyDict (todo_honey @ [(''id'', PyInt 201)]))"
    by (simp add: fixture_defs)
  have body: "map_of (todo_honey @ [(''id'', PyInt 201)]) =
      (map_of todo_honey)(''id'' \<mapsto> PyInt 201)"
    by (rule ext) (simp add: todo_honey_def)
  show ?thesis
    using no_id answered decoded
      post_created_round_trip [OF userId title completed no_id answered status phrase
        decoded body]
    by (simp add: start_def title)
qed

section \<open>C5: the body of a PUT\<close>

text \<open>
  C5. The \<^verbatim>\<open>PUT\<close> section hands to \<^verbatim>\<open>requests.put\<close>, as its \<^verbatim>\<open>json=\<close> argument, the
  dictionary bound to \<^verbatim>\<open>todo\<close> and nothing else, whatever the service answered to the
  \<^verbatim>\<open>GET\<close> that comes first: no field of that answer is merged in and no field is added.
  The section makes the \<^verbatim>\<open>GET\<close> request and then, when that is answered and \<^verbatim>\<open>todo\<close> has
  the three fields the script reads from it, exactly one \<^verbatim>\<open>PUT\<close> request, whose payload is
  \<^verbatim>\<open>todo\<close>; otherwise it makes no \<^verbatim>\<open>PUT\<close> request at all.
\<close>

theorem put_sends_todo_as_given:
  "sent (snd (put_method L api_url todo s)) =
     sent s @ get_request api_url #
       (if fst (send L (get_request api_url) (world s)) \<noteq> None \<and>
           map_of todo ''userId'' \<noteq> None \<and> map_of todo ''title'' \<noteq> None \<and>
           map_of todo ''completed'' \<noteq> None
        then [\<lparr>verb = PUT, url = api_url, json = Some (PyDict todo), data = None,
               headers = []\<rparr>]
        else [])"
proof (cases "send L (get_request api_url) (world s)")
  case (Pair answer w1)
  show ?thesis
  proof (cases answer)
    case None
    with Pair show ?thesis
      by (simp add: put_method_def requests_get_def get_request_def request_failed)
  next
    case (Some response)
    have got: "send L \<lparr>verb = GET, url = api_url, json = None, data = None, headers = []\<rparr>
                 (world s) = (Some response, w1)"
      using Pair Some by (simp add: get_request_def)
    have report_keeps_sent: "sent (snd (put_report L a b c response r s')) = sent s'"
      for a b c r and s' :: "'a run"
      by (simp add: put_report_def json_loads_def then_do_def lift_def py_print_def return_def
          raise_def split: sum.splits option.splits prod.splits)
    show ?thesis
    proof (cases "map_of todo ''userId'' \<noteq> None \<and> map_of todo ''title'' \<noteq> None \<and>
                  map_of todo ''completed'' \<noteq> None")
      case False
      then show ?thesis
        using Pair Some
        by (simp add: put_method_def requests_get_def request_answered [OF got] get_request_def
            del: subscript.simps)
          (auto simp add: then_do_def lift_def split: option.splits)
    next
      case True
      then obtain u t c where fields: "map_of todo ''userId'' = Some u"
        "map_of todo ''title'' = Some t" "map_of todo ''completed'' = Some c"
        by auto
      define put_request where "put_request =
        \<lparr>verb = PUT, url = api_url, json = Some (PyDict todo), data = None, headers = []\<rparr>"
      define s1 where "s1 = s\<lparr>world := w1, sent := sent s @ [get_request api_url]\<rparr>"
      have start_put: "put_method L api_url todo s =
          then_do (request L put_request) (\<lambda>response_put.
          then_do (put_report L u t c response response_put) (\<lambda>resp_py.
          return (response, response_put, resp_py))) s1"
        by (simp add: put_method_def requests_get_def request_answered [OF got] fields
            then_do_lift_Inr get_request_def requests_put_def put_request_def s1_def)
      obtain answer2 w2 where put: "send L put_request (world s1) = (answer2, w2)"
        by (cases "send L put_request (world s1)")
      have "sent (snd (put_method L api_url todo s)) = sent s1 @ [put_request]"
      proof (cases answer2)
        case None
        with put show ?thesis
          by (simp add: start_put request_failed)
      next
        case (Some response_put)
        define s2 where "s2 = s1\<lparr>world := w2, sent := sent s1 @ [put_request]\<rparr>"
        have "sent (snd (put_report L u t c response response_put s2)) = sent s2"
          by (rule report_keeps_sent)
        then show ?thesis
          using put Some
          by (cases "put_report L u t c response response_put s2")
            (auto simp add: start_put request_def then_do_def return_def s2_def
              split: sum.splits)
      qed
      then show ?thesis
        using Pair \<open>answer = Some response\<close> True
        by (simp add: s1_def put_request_def)
    qed
  qed
qed

text \<open>
  The theorem at work: the payload is \<^verbatim>\<open>todo\<close> on the day the \<^verbatim>\<open>GET\<close> is answered with
  \<^verbatim>\<open>503\<close> and an HTML page, and no \<^verbatim>\<open>PUT\<close> is made when the service cannot be reached.
\<close>

theorem put_sends_todo_as_given_witness:
  "sent (snd (put_method flaky (todos_url @ ''/10'') todo_dance start)) =
     [get_request (todos_url @ ''/10''), json_request PUT (todos_url @ ''/10'') todo_dance] \<and>
   json (json_request PUT (todos_url @ ''/10'') todo_dance) = Some (PyDict todo_dance) \<and>
   sent (snd (put_method unreachable (todos_url @ ''/10'') todo_dance start)) =
     [get_request (todos_url @ ''/10'')]"
proof -
  have answered: "fst (send flaky (get_request (todos_url @ ''/10'')) (world start)) \<noteq> None"
    by (simp add: flaky_def canned_def)
  have refused: "fst (send unreachable (get_request (todos_url @ ''/10'')) (world start)) = None"
    by (simp add: unreachable_def canned_def)
  have fields: "map_of todo_dance ''userId'' \<noteq> None" "map_of todo_dance ''title'' \<noteq> None"
    "map_of todo_dance ''completed'' \<noteq> None"
    by (simp_all add: todo_dance_def)
  show ?thesis
    using answered refused fields
      put_sends_todo_as_given [of flaky "todos_url @ ''/10''" todo_dance start]
      put_sends_todo_as_given [of unreachable "todos_url @ ''/10''" todo_dance start]
    by (simp add: json_request_def start_def)
qed

section \<open>C6: the body of a PATCH\<close>

text \<open>
  C6. The \<^verbatim>\<open>PATCH\<close> section hands to \<^verbatim>\<open>requests.patch\<close>, as its \<^verbatim>\<open>json=\<close> argument, the
  partial dictionary bound to \<^verbatim>\<open>todo\<close> as it is: the request it makes carries exactly
  that mapping, no field the caller left out is added and nothing is inferred from earlier
  answers. It is the only request of the section, made once the script has read
  \<^verbatim>\<open>todo["title"]\<close>; a \<^verbatim>\<open>todo\<close> without a title stops the script before any request.
\<close>

theorem patch_sends_todo_as_given:
  "sent (snd (patch_method L api_url todo s)) =
     sent s @
       (if map_of todo ''title'' \<noteq> None
        then [\<lparr>verb = PATCH, url = api_url, json = Some (PyDict todo), data = None,
               headers = []\<rparr>]
        else [])"
proof (cases "map_of todo ''title''")
  case None
  then show ?thesis
    by (simp add: patch_method_def then_do_lift_Inl raise_def)
next
  case (Some t)
  define patch_request where "patch_request =
    \<lparr>verb = PATCH, url = api_url, json = Some (PyDict todo), data = None, headers = []\<rparr>"
  have report_keeps_sent: "sent (snd (patch_report L t r s')) = sent s'"
    for r and s' :: "'a run"
    by (simp add: patch_report_def json_loads_def then_do_def lift_def py_print_def return_def
        raise_def split: sum.splits option.splits prod.splits)
  have start_patch: "patch_method L api_url todo s =
      then_do (request L patch_request) (\<lambda>response_patch.
      then_do (patch_report L t response_patch) (\<lambda>resp_py.
      return (response_patch, resp_py))) s"
    by (simp add: patch_method_def Some then_do_lift_Inr requests_patch_def patch_request_def)
  obtain answer w1 where sent_it: "send L patch_request (world s) = (answer, w1)"
    by (cases "send L patch_request (world s)")
  have "sent (snd (patch_method L api_url todo s)) = sent s @ [patch_request]"
  proof (cases answer)
    case None
    with sent_it show ?thesis
      by (simp add: start_patch request_failed)
  next
    case (Some response_patch)
    define s1 where "s1 = s\<lparr>world := w1, sent := sent s @ [patch_request]\<rparr>"
    have "sent (snd (patch_report L t response_patch s1)) = sent s1"
      by (rule report_keeps_sent)
    then show ?thesis
      using sent_it Some
      by (cases "patch_report L t response_patch s1")
        (auto simp add: start_patch request_def then_do_def return_def s1_def split: sum.splits)
  qed
  then show ?thesis
    using \<open>map_of todo ''title'' = Some t\<close> by (simp add: patch_request_def)
qed

text \<open>
  The theorem at work on the script's own \<^verbatim>\<open>todo\<close>, the title alone, and on a \<^verbatim>\<open>todo\<close>
  that has no title.
\<close>

theorem patch_sends_todo_as_given_witness:
  "sent (snd (patch_method tutorial (todos_url @ ''/10'') todo_happy start)) =
     [json_request PATCH (todos_url @ ''/10'') todo_happy] \<and>
   json (json_request PATCH (todos_url @ ''/10'') todo_happy) =
     Some (PyDict [(''title'', PyStr ''Happy Happy'')]) \<and>
   sent (snd (patch_method tutorial (todos_url @ ''/10'') [(''completed'', PyBool True)] start))
     = []"
proof -
  have titled: "map_of todo_happy ''title'' \<noteq> None"
    by (simp add: todo_happy_def)
  have untitled: "map_of [(''completed'', PyBool True)] ''title'' = None"
    by simp
  show ?thesis
    using titled untitled
      patch_sends_todo_as_given [of tutorial "todos_url @ ''/10''" todo_happy start]
      patch_sends_todo_as_given [of tutorial "todos_url @ ''/10''" "[(''completed'', PyBool True)]"
        start]
    by (simp add: json_request_def start_def todo_happy_def)
qed

section \<open>C7: what is left of an unsuccessful response\<close>



section \<open>C8: the same GET twice\<close>

text \<open>
  What the \<^verbatim>\<open>if\<close> statement of the \<^verbatim>\<open>GET\<close> section computes and prints depends on the
  response and on the libraries, not on what was sent or printed before.
\<close>

lemma get_report_frame:
  "get_report L r s =
     (fst (get_report L r s'),
      s\<lparr>printed := printed s @ drop (length (printed s')) (printed (snd (get_report L r s')))\<rparr>)"
  by (simp add: get_report_def json_loads_def response_json_def then_do_def lift_def py_print_def
      return_def raise_def split: sum.splits option.splits prod.splits)

text \<open>
  C8. When the \<^verbatim>\<open>GET\<close> section runs twice in a row against a service that gives the same
  response both times, the second run yields what the first one yielded, the same response
  object and the same decoded resource in \<^verbatim>\<open>resp_py\<close> (or the same exception), and prints
  the same lines again.
\<close>

theorem get_twice_yields_the_same:
  assumes first: "send L (get_request api_url) (world s) = (Some r, w1)"
    and again: "send L (get_request api_url) w1 = (Some r, w2)"
  shows "fst (get_method L api_url (snd (get_method L api_url s))) =
           fst (get_method L api_url s) \<and>
         printed (snd (get_method L api_url (snd (get_method L api_url s)))) =
           printed (snd (get_method L api_url s)) @
           drop (length (printed s)) (printed (snd (get_method L api_url s)))"
proof -
  define rq where "rq = \<lparr>verb = GET, url = api_url, json = None, data = None, headers = []\<rparr>"
  have run: "get_method L api_url s0 =
      (case get_report L r (s0\<lparr>world := w, sent := sent s0 @ [rq]\<rparr>) of
         (Inl e, s') \<Rightarrow> (Inl e, s') | (Inr v, s') \<Rightarrow> (Inr (r, v), s'))"
    if "send L rq (world s0) = (Some r, w)" for s0 :: "'a run" and w
    using that
    by (simp add: get_method_def requests_get_def rq_def [symmetric] request_answered)
      (simp add: then_do_def return_def split: sum.splits prod.splits)
  define s1 where "s1 = s\<lparr>world := w1, sent := sent s @ [rq]\<rparr>"
  define res where "res = fst (get_report L r s1)"
  define new where "new = drop (length (printed s1)) (printed (snd (get_report L r s1)))"
  have report: "get_report L r s0 = (res, s0\<lparr>printed := printed s0 @ new\<rparr>)"
    for s0 :: "'a run"
    unfolding res_def new_def by (rule get_report_frame)
  define outcome where
    "outcome = (case res of Inl e \<Rightarrow> Inl e | Inr v \<Rightarrow> Inr (r, v))"
  have first_run: "get_method L api_url s = (outcome, s1\<lparr>printed := printed s @ new\<rparr>)"
    using first
    by (simp add: run rq_def [symmetric] get_request_def report [of s1] s1_def [symmetric]
        outcome_def)
      (simp add: s1_def split: sum.splits)
  define s2 where "s2 = s1\<lparr>printed := printed s @ new\<rparr>"
  have "send L rq (world s2) = (Some r, w2)"
    using again by (simp add: s2_def s1_def rq_def get_request_def)
  then have second_run: "get_method L api_url s2 =
      (outcome, s2\<lparr>world := w2, sent := sent s2 @ [rq], printed := printed s2 @ new\<rparr>)"
    by (simp add: run report outcome_def split: sum.splits)
  show ?thesis
    by (simp add: first_run s2_def [symmetric] second_run) (simp add: s2_def s1_def)
qed

text \<open>
  The theorem at work on the tutorial's service, which answers \<^verbatim>\<open>GET /todos/1\<close> with
  todo 1 every time.
\<close>

theorem get_twice_yields_the_same_witness:
  "send tutorial (get_request (todos_url @ ''/1'')) (world start) = (Some (ok body_todo1), ()) \<and>
   send tutorial (get_request (todos_url @ ''/1'')) () = (Some (ok body_todo1), ()) \<and>
   fst (get_method tutorial (todos_url @ ''/1'') start) =
     Inr (ok body_todo1,
          Some (PyDict [(''userId'', PyInt 1), (''id'', PyInt 1),
                        (''title'', PyStr ''delectus aut autem''), (''completed'', PyBool False)])) \<and>
   fst (get_method tutorial (todos_url @ ''/1'') (snd (get_method tutorial (todos_url @ ''/1'') start)))
     = fst (get_method tutorial (todos_url @ ''/1'') start)"
proof -
  have first: "send tutorial (get_request (todos_url @ ''/1'')) (world start)
                 = (Some (ok body_todo1), ())"
    by (simp add: fixture_defs)
  have again: "send tutorial (get_request (todos_url @ ''/1'')) () = (Some (ok body_todo1), ())"
    by (simp add: fixture_defs)
  have yielded: "fst (get_method tutorial (todos_url @ ''/1'') start) =
     Inr (ok body_todo1,
          Some (PyDict [(''userId'', PyInt 1), (''id'', PyInt 1),
                        (''title'', PyStr ''delectus aut autem''), (''completed'', PyBool False)]))"
    by (simp add: run_defs fixture_defs)
  show ?thesis
    using first again yielded get_twice_yields_the_same [OF first again]
    by simp
qed

section \<open>C9: the reason phrase counts\<close>

text \<open>
  C9. Every \<^verbatim>\<open>if\<close> statement of the script tests the reason phrase next to the status
  code. A response whose reason is not \<^verbatim>\<open>OK\<close> is reported as unsuccessful by the \<^verbatim>\<open>GET\<close>,
  \<^verbatim>\<open>PUT\<close>, \<^verbatim>\<open>PATCH\<close> and \<^verbatim>\<open>DELETE\<close> sections even when its status is \<^verbatim>\<open>200\<close>, and a
  response whose reason is not \<^verbatim>\<open>Created\<close> is reported as unsuccessful by the \<^verbatim>\<open>POST\<close>
  section even when its status is \<^verbatim>\<open>201\<close>; the body is then neither decoded nor compared.
  The other way round, a section prints its \<^verbatim>\<open>Successful\<close> line only for a response
  that has both the expected status and the expected reason.
\<close>

theorem reason_phrase_decides_too:
  "(status_code r = 200 \<and> reason r \<noteq> ''OK'' \<longrightarrow>
      get_report L r s =
        (Inr None, s\<lparr>printed := printed s @ [unsuccessful ''GET /todos/1'' r]\<rparr>) \<and>
      put_report L a b c r0 r s =
        (Inr None, s\<lparr>printed := printed s @ [unsuccessful ''PUT /todos'' r]\<rparr>) \<and>
      patch_report L b r s =
        (Inr None, s\<lparr>printed := printed s @ [unsuccessful ''PATCH /todos/10'' r]\<rparr>) \<and>
      delete_report r0 r s =
        (Inr (), s\<lparr>printed := printed s @ [unsuccessful ''PATCH /todos/10'' r]\<rparr>)) \<and>
   (status_code r = 201 \<and> reason r \<noteq> ''Created'' \<longrightarrow>
      post_report L a b c r s =
        (Inr None, s\<lparr>printed := printed s @ [unsuccessful ''POST /todos'' r]\<rparr>)) \<and>
   (successful ''GET /todos/1'' r
      \<in> set (drop (length (printed s)) (printed (snd (get_report L r s)))) \<longrightarrow>
    status_code r = 200 \<and> reason r = ''OK'') \<and>
   (successful ''POST /todos'' r
      \<in> set (drop (length (printed s)) (printed (snd (post_report L a b c r s)))) \<longrightarrow>
    status_code r = 201 \<and> reason r = ''Created'') \<and>
   (successful ''PUT /todos'' r0
      \<in> set (drop (length (printed s)) (printed (snd (put_report L a b c r0 r s)))) \<longrightarrow>
    status_code r = 200 \<and> reason r = ''OK'') \<and>
   (successful ''PATCH /todos/10'' r
      \<in> set (drop (length (printed s)) (printed (snd (patch_report L b r s)))) \<longrightarrow>
    status_code r = 200 \<and> reason r = ''OK'') \<and>
   (successful ''DELETE /todos/10'' r0
      \<in> set (drop (length (printed s)) (printed (snd (delete_report r0 r s)))) \<longrightarrow>
    status_code r = 200 \<and> reason r = ''OK'')"
proof -
  have differ: "successful what r1 \<noteq> unsuccessful what' r2" for what what' r1 r2
    by (simp add: successful_def unsuccessful_def)
  have refused: "get_report L r s =
        (Inr None, s\<lparr>printed := printed s @ [unsuccessful ''GET /todos/1'' r]\<rparr>)"
      "put_report L a b c r0 r s =
        (Inr None, s\<lparr>printed := printed s @ [unsuccessful ''PUT /todos'' r]\<rparr>)"
      "patch_report L b r s =
        (Inr None, s\<lparr>printed := printed s @ [unsuccessful ''PATCH /todos/10'' r]\<rparr>)"
      "delete_report r0 r s =
        (Inr (), s\<lparr>printed := printed s @ [unsuccessful ''PATCH /todos/10'' r]\<rparr>)"
    if "\<not> (status_code r = 200 \<and> reason r = ''OK'')"
    using that
    by (simp_all add: get_report_other put_report_other patch_report_other delete_report_other)
  have refused_post: "post_report L a b c r s =
        (Inr None, s\<lparr>printed := printed s @ [unsuccessful ''POST /todos'' r]\<rparr>)"
    if "\<not> (status_code r = 201 \<and> reason r = ''Created'')"
    using that by (simp add: post_report_other)
  have only_get: "status_code r = 200 \<and> reason r = ''OK''"
    if "successful ''GET /todos/1'' r
          \<in> set (drop (length (printed s)) (printed (snd (get_report L r s))))"
    using that refused(1) differ by (cases "status_code r = 200 \<and> reason r = ''OK''") auto
  have only_post: "status_code r = 201 \<and> reason r = ''Created''"
    if "successful ''POST /todos'' r
          \<in> set (drop (length (printed s)) (printed (snd (post_report L a b c r s))))"
    using that refused_post differ
    by (cases "status_code r = 201 \<and> reason r = ''Created''") auto
  have only_put: "status_code r = 200 \<and> reason r = ''OK''"
    if "successful ''PUT /todos'' r0
          \<in> set (drop (length (printed s)) (printed (snd (put_report L a b c r0 r s))))"
    using that refused(2) differ by (cases "status_code r = 200 \<and> reason r = ''OK''") auto
  have only_patch: "status_code r = 200 \<and> reason r = ''OK''"
    if "successful ''PATCH /todos/10'' r
          \<in> set (drop (length (printed s)) (printed (snd (patch_report L b r s))))"
    using that refused(3) differ by (cases "status_code r = 200 \<and> reason r = ''OK''") auto
  have only_delete: "status_code r = 200 \<and> reason r = ''OK''"
    if "successful ''DELETE /todos/10'' r0
          \<in> set (drop (length (printed s)) (printed (snd (delete_report r0 r s))))"
    using that refused(4) differ by (cases "status_code r = 200 \<and> reason r = ''OK''") auto
  show ?thesis
    using refused refused_post only_get only_post only_put only_patch only_delete
    by blast
qed

text \<open>
  The theorem at work: \<^verbatim>\<open>200\<close> with an empty reason phrase and the body of todo 1, and
  \<^verbatim>\<open>201 CREATED\<close> with the body of the new todo.
\<close>

theorem reason_phrase_decides_too_witness:
  "status_code ok_unnamed = 200 \<and> reason ok_unnamed \<noteq> ''OK'' \<and>
   status_code created_shouted = 201 \<and> reason created_shouted \<noteq> ''Created'' \<and>
   get_report tutorial ok_unnamed start =
     (Inr None, start\<lparr>printed := [unsuccessful ''GET /todos/1'' ok_unnamed]\<rparr>) \<and>
   put_report tutorial (PyInt 1) (PyStr ''By honey'') (PyBool False) (ok body_todo10)
       ok_unnamed start =
     (Inr None, start\<lparr>printed := [unsuccessful ''PUT /todos'' ok_unnamed]\<rparr>) \<and>
   patch_report tutorial (PyStr ''By honey'') ok_unnamed start =
     (Inr None, start\<lparr>printed := [unsuccessful ''PATCH /todos/10'' ok_unnamed]\<rparr>) \<and>
   delete_report (ok body_todo10) ok_unnamed start =
     (Inr (), start\<lparr>printed := [unsuccessful ''PATCH /todos/10'' ok_unnamed]\<rparr>) \<and>
   post_report tutorial (PyInt 1) (PyStr ''By honey'') (PyBool False) created_shouted start =
     (Inr None, start\<lparr>printed := [unsuccessful ''POST /todos'' created_shouted]\<rparr>) \<and>
   successful ''DELETE /todos/10'' (ok body_todo10)
     \<in> set (drop (length (printed start))
                (printed (snd (delete_report (ok body_todo10) (ok ''{}'') start)))) \<and>
   status_code (ok ''{}'') = 200 \<and> reason (ok ''{}'') = ''OK''"
  using reason_phrase_decides_too [where r = ok_unnamed and L = tutorial and s = start
      and a = "PyInt 1" and b = "PyStr ''By honey''" and c = "PyBool False"
      and ?r0.0 = "ok body_todo10"]
    reason_phrase_decides_too [where r = created_shouted and L = tutorial and s = start
      and a = "PyInt 1" and b = "PyStr ''By honey''" and c = "PyBool False"]
  by (simp add: ok_unnamed_def created_shouted_def start_def ok_def delete_report_def
      py_print_def)

section \<open>C10: whose status the PUT and DELETE reports show\<close>

text \<open>
  The script from line 445 on, and the script as its first four sections followed by that.
\<close>

lemma script_from_line_445:
  "script L s0 =
     then_do
       (then_do (get_method L (todos_url @ ''/1'')) (\<lambda>(response_get, _).
        then_do (deserialize L response_get) (\<lambda>_.
        then_do (post_method L todos_url todo_honey) (\<lambda>_.
        post_data_method L todos_url todo_beer [(''Content-Type'', ''application/json'')]))))
       (\<lambda>_.
        then_do (put_method L (todos_url @ ''/10'') todo_dance) (\<lambda>(response, _, _).
        then_do (patch_method L (todos_url @ ''/10'') todo_happy) (\<lambda>_.
        then_do (delete_method L (todos_url @ ''/10'') response) (\<lambda>_.
        return ())))) s0"
  by (simp add: script_def then_do_def split: prod.splits sum.splits)

lemma put_method_yields_get:
  assumes "send L (get_request api_url) (world s) = (Some response, w1)"
    and "put_method L api_url todo s = (Inr (x, y, z), sa)"
  shows "x = response"
proof -
  have rq: "send L \<lparr>verb = GET, url = api_url, json = None, data = None, headers = []\<rparr>
              (world s) = (Some response, w1)"
    using assms(1) by (simp add: get_request_def)
  show ?thesis
    using assms(2)
    by (simp add: put_method_def requests_get_def request_answered [OF rq])
      (auto simp add: then_do_def return_def lift_def split: sum.splits prod.splits)
qed

text \<open>
  C10. When the \<^verbatim>\<open>PUT\<close> is answered with \<^verbatim>\<open>200 OK\<close> and a body that decodes, the first
  line the section prints is the \<^verbatim>\<open>Successful\<close> line filled with the status code and the
  reason phrase of \<^verbatim>\<open>response\<close>, the answer to the \<^verbatim>\<open>GET\<close> of line 450 that came before,
  not with those of the answer to the \<^verbatim>\<open>PUT\<close>. When the \<^verbatim>\<open>DELETE\<close> is answered with
  \<^verbatim>\<open>200 OK\<close>, the line it prints is filled from the \<^verbatim>\<open>response\<close> it is given, not from
  the answer to the \<^verbatim>\<open>DELETE\<close>; and in a run of the whole script that reaches line 552,
  that \<^verbatim>\<open>response\<close> is still the answer to the \<^verbatim>\<open>GET\<close> of line 450, so the last line of
  the run reports the status of that earlier exchange.
\<close>

theorem success_reports_show_the_earlier_get:
  assumes got: "send L (get_request api_url) (world s) = (Some response, w1)"
    and userId: "map_of todo ''userId'' = Some u"
    and title: "map_of todo ''title'' = Some t"
    and completed: "map_of todo ''completed'' = Some c"
    and put: "send L (json_request PUT api_url todo) w1 = (Some response_put, w2)"
    and put_ok: "status_code response_put = 200" "reason response_put = ''OK''"
    and decoded: "loads L (body_text response_put) = Some resp_py"
    and deleted: "send L (delete_request api_url) (world s') = (Some response_del, w3)"
    and delete_ok: "status_code response_del = 200" "reason response_del = ''OK''"
    and first_sections:
      "then_do (get_method L (todos_url @ ''/1'')) (\<lambda>(response_get, _).
       then_do (deserialize L response_get) (\<lambda>_.
       then_do (post_method L todos_url todo_honey) (\<lambda>_.
       post_data_method L todos_url todo_beer [(''Content-Type'', ''application/json'')]))) s0
         = (Inr z, sp)"
    and got10: "send L (get_request (todos_url @ ''/10'')) (world sp) = (Some response10, wa)"
    and put_section: "put_method L (todos_url @ ''/10'') todo_dance sp = (Inr p, sa)"
    and patch_section: "patch_method L (todos_url @ ''/10'') todo_happy sa = (Inr q, sb)"
    and deleted10:
      "send L (delete_request (todos_url @ ''/10'')) (world sb) = (Some response_del10, wb)"
    and delete10_ok: "status_code response_del10 = 200" "reason response_del10 = ''OK''"
  shows "(\<exists>rest. printed (snd (put_method L api_url todo s)) =
                   printed s @ successful ''PUT /todos'' response # rest) \<and>
         printed (snd (delete_method L api_url response s')) =
           printed s' @ [successful ''DELETE /todos/10'' response] \<and>
         printed (snd (script L s0)) =
           printed sb @ [successful ''DELETE /todos/10'' response10]"
proof -
  have get_rq: "send L \<lparr>verb = GET, url = api_url, json = None, data = None, headers = []\<rparr>
                  (world s) = (Some response, w1)"
    using got by (simp add: get_request_def)
  define s1 where "s1 = s\<lparr>world := w1, sent := sent s @ [get_request api_url]\<rparr>"
  have put_rq: "send L \<lparr>verb = PUT, url = api_url, json = Some (PyDict todo), data = None,
                         headers = []\<rparr> (world s1) = (Some response_put, w2)"
    using put by (simp add: json_request_def s1_def)
  define s2 where "s2 = s1\<lparr>world := w2, sent := sent s1 @ [json_request PUT api_url todo]\<rparr>"
  have after_get: "put_method L api_url todo s =
      then_do (request L \<lparr>verb = PUT, url = api_url, json = Some (PyDict todo), data = None,
                            headers = []\<rparr>) (\<lambda>response_put.
      then_do (put_report L u t c response response_put) (\<lambda>resp_py.
        return (response, response_put, resp_py))) s1"
    by (simp add: put_method_def requests_get_def request_answered [OF get_rq] userId title
        completed then_do_lift_Inr requests_put_def s1_def get_request_def)
  have run: "put_method L api_url todo s =
      then_do (put_report L u t c response response_put) (\<lambda>resp_py.
        return (response, response_put, resp_py)) s2"
    by (simp add: after_get request_answered [OF put_rq] s2_def json_request_def)
  obtain rest where report:
    "printed (snd (put_report L u t c response response_put s2)) =
       printed s2 @ successful ''PUT /todos'' response # rest"
    using put_report_decoded [OF put_ok decoded] by blast
  have "printed (snd (put_method L api_url todo s)) =
          printed (snd (put_report L u t c response response_put s2))"
    by (cases "put_report L u t c response response_put s2")
      (simp add: run then_do_def return_def split: sum.splits)
  then have first: "\<exists>rest. printed (snd (put_method L api_url todo s)) =
                           printed s @ successful ''PUT /todos'' response # rest"
    using report by (simp add: s2_def s1_def)
  have delete_line: "printed (snd (delete_method L u r0 st)) =
                       printed st @ [successful ''DELETE /todos/10'' r0]"
    if "send L (delete_request u) (world st) = (Some rd, w)"
      and "status_code rd = 200" "reason rd = ''OK''"
    for u r0 rd w and st :: "'a run"
  proof -
    have del_rq: "send L \<lparr>verb = DELETE, url = u, json = None, data = None, headers = []\<rparr>
                    (world st) = (Some rd, w)"
      using that(1) by (simp add: delete_request_def)
    show ?thesis
      by (simp add: delete_method_def requests_delete_def request_answered [OF del_rq])
        (simp add: then_do_def delete_report_ok [OF that(2,3)] return_def)
  qed
  have second: "printed (snd (delete_method L api_url response s')) =
                  printed s' @ [successful ''DELETE /todos/10'' response]"
    using deleted delete_ok by (rule delete_line)
  obtain x y v where p: "p = (x, y, v)"
    by (cases p)
  have bound: "x = response10"
    using got10 put_section unfolding p by (rule put_method_yields_get)
  define first_four where "first_four =
      then_do (get_method L (todos_url @ ''/1'')) (\<lambda>(response_get, _).
      then_do (deserialize L response_get) (\<lambda>_.
      then_do (post_method L todos_url todo_honey) (\<lambda>_.
      post_data_method L todos_url todo_beer [(''Content-Type'', ''application/json'')])))"
  have finished: "first_four s0 = (Inr z, sp)"
    using first_sections by (simp add: first_four_def)
  have "script L s0 =
          then_do first_four (\<lambda>_.
          then_do (put_method L (todos_url @ ''/10'') todo_dance) (\<lambda>(response, _, _).
          then_do (patch_method L (todos_url @ ''/10'') todo_happy) (\<lambda>_.
          then_do (delete_method L (todos_url @ ''/10'') response) (\<lambda>_.
          return ())))) s0"
    by (simp add: script_from_line_445 first_four_def)
  then have "script L s0 =
          then_do (delete_method L (todos_url @ ''/10'') response10) (\<lambda>_. return ()) sb"
    by (simp add: then_do_def finished put_section p bound patch_section)
  then have "printed (snd (script L s0)) =
               printed (snd (delete_method L (todos_url @ ''/10'') response10 sb))"
    by (cases "delete_method L (todos_url @ ''/10'') response10 sb")
      (simp add: then_do_def return_def split: sum.splits)
  then have third: "printed (snd (script L s0)) =
                      printed sb @ [successful ''DELETE /todos/10'' response10]"
    using delete_line [OF deleted10 delete10_ok] by simp
  show ?thesis using first second third by simp
qed

text \<open>
  The theorem at work on the day the \<^verbatim>\<open>GET\<close> of line 450 is answered with
  \<^verbatim>\<open>503 Service Unavailable\<close> and the writes with \<^verbatim>\<open>200 OK\<close>: the script announces a
  successful \<^verbatim>\<open>PUT\<close> and a successful \<^verbatim>\<open>DELETE\<close> with status 503.
\<close>

theorem success_reports_show_the_earlier_get_witness:
  "status_code unavailable = 503 \<and> status_code (ok body_dance) = 200 \<and>
   send flaky (get_request (todos_url @ ''/10'')) (world start) = (Some unavailable, ()) \<and>
   send flaky (json_request PUT (todos_url @ ''/10'') todo_dance) () = (Some (ok body_dance), ()) \<and>
   send flaky (delete_request (todos_url @ ''/10'')) (world start) = (Some (ok ''{}''), ()) \<and>
   (\<exists>rest. printed (snd (put_method flaky (todos_url @ ''/10'') todo_dance start)) =
            successful ''PUT /todos'' unavailable # rest) \<and>
   printed (snd (delete_method flaky (todos_url @ ''/10'') unavailable start)) =
     [successful ''DELETE /todos/10'' unavailable] \<and>
   fst (script flaky start) = Inr () \<and>
   last (printed (snd (script flaky start))) = successful ''DELETE /todos/10'' unavailable"
proof -
  define u10 where "u10 = todos_url @ ''/10''"
  define first_four :: "(unit, response) prog" where "first_four =
      then_do (get_method flaky (todos_url @ ''/1'')) (\<lambda>(response_get, _).
      then_do (deserialize flaky response_get) (\<lambda>_.
      then_do (post_method flaky todos_url todo_honey) (\<lambda>_.
      post_data_method flaky todos_url todo_beer [(''Content-Type'', ''application/json'')])))"
  define sp where "sp = snd (first_four start)"
  define sa where "sa = snd (put_method flaky u10 todo_dance sp)"
  define sb where "sb = snd (patch_method flaky u10 todo_happy sa)"
  have got: "send flaky (get_request u10) (world start) = (Some unavailable, ())"
    by (simp add: flaky_def canned_def u10_def)
  have userId: "map_of todo_dance ''userId'' = Some (PyInt 1)"
    and title: "map_of todo_dance ''title'' = Some (PyStr ''Dance at Hector party'')"
    and completed: "map_of todo_dance ''completed'' = Some (PyBool True)"
    by (simp_all add: todo_dance_def)
  have put: "send flaky (json_request PUT u10 todo_dance) () = (Some (ok body_dance), ())"
    by (simp add: fixture_defs u10_def)
  have put_ok: "status_code (ok body_dance) = 200" "reason (ok body_dance) = ''OK''"
    by (simp_all add: ok_def)
  have decoded: "loads flaky (body_text (ok body_dance)) =
                   Some (PyDict (todo_dance @ [(''id'', PyInt 10)]))"
    by (simp add: fixture_defs)
  have deleted: "send flaky (delete_request u10) (world st) = (Some (ok ''{}''), ())"
    for st :: "unit run"
    by (simp add: fixture_defs u10_def)
  have delete_ok: "status_code (ok ''{}'') = 200" "reason (ok ''{}'') = ''OK''"
    by (simp_all add: ok_def)
  have "fst (first_four start) = Inr (created body_beer)"
    by (simp add: first_four_def run_defs fixture_defs)
  then have first_sections: "first_four start = (Inr (created body_beer), sp)"
    by (simp add: sp_def prod_eq_iff)
  have got10: "send flaky (get_request u10) (world sp) = (Some unavailable, ())"
    by (simp add: flaky_def canned_def u10_def)
  have put_fst: "fst (put_method flaky u10 todo_dance st) =
      Inr (unavailable, ok body_dance, Some (PyDict (todo_dance @ [(''id'', PyInt 10)])))"
    for st :: "unit run"
    by (simp add: u10_def run_defs fixture_defs)
  have put_section: "put_method flaky u10 todo_dance sp =
      (Inr (unavailable, ok body_dance, Some (PyDict (todo_dance @ [(''id'', PyInt 10)]))), sa)"
    by (simp add: sa_def prod_eq_iff put_fst)
  have patch_fst: "fst (patch_method flaky u10 todo_happy st) =
      Inr (ok body_happy,
           Some (PyDict [(''userId'', PyInt 1), (''id'', PyInt 10),
                         (''title'', PyStr ''Happy Happy''), (''completed'', PyBool True)]))"
    for st :: "unit run"
    by (simp add: u10_def run_defs fixture_defs)
  have patch_section: "patch_method flaky u10 todo_happy sa =
      (Inr (ok body_happy,
            Some (PyDict [(''userId'', PyInt 1), (''id'', PyInt 10),
                          (''title'', PyStr ''Happy Happy''), (''completed'', PyBool True)])), sb)"
    by (simp add: sb_def prod_eq_iff patch_fst)
  have finishes: "fst (script flaky start) = Inr ()"
    by (simp add: run_defs fixture_defs)
  note shown = success_reports_show_the_earlier_get
    [OF got userId title completed put put_ok decoded deleted [of start] delete_ok
      first_sections [unfolded first_four_def] got10 [unfolded u10_def]
      put_section [unfolded u10_def] patch_section [unfolded u10_def]
      deleted [of sb, unfolded u10_def] delete_ok, unfolded u10_def]
  show ?thesis
    using shown got put deleted [of start] finishes
    by (simp add: unavailable_def ok_def start_def u10_def)
qed

end
